theory Spec2Isabelle
  imports Main "HOL-Library.AList"
begin


section \<open>The generated SQL and the sync operation\<close>

text \<open>
  Node's \<^verbatim>\<open>util.format\<close>, for the one directive the plugin uses: each \<^verbatim>\<open>%s\<close> is
  replaced by the next argument, a \<^verbatim>\<open>%s\<close> without an argument stays as it is, and
  arguments left over are appended, each after a space. The arguments are strings
  (the table name \<open>tbl\<close>), so \<^verbatim>\<open>String(arg)\<close> is the argument itself.
\<close>

fun format :: "string \<Rightarrow> string list \<Rightarrow> string" where
  "format [] args = concat (map (\<lambda>a. CHR '' '' # a) args)"
| "format [c] args = c # format [] args"
| "format (c # d # f) args =
     (if c = CHR ''%'' \<and> d = CHR ''s''
      then (case args of [] \<Rightarrow> c # d # format f [] | a # as \<Rightarrow> a @ format f as)
      else c # format (d # f) args)"

text \<open>The three statements of \<^verbatim>\<open>classMethods.sync\<close>, with their format strings as in the source.\<close>

definition dropInsertTrigger :: "string \<Rightarrow> string" where
  \<open>dropInsertTrigger tbl =
     format ''DROP TRIGGER IF EXISTS insert_%s ON %s'' [tbl, tbl]\<close>

definition createInsertFn :: "string \<Rightarrow> string" where
  \<open>createInsertFn tbl =
     format ''CREATE OR REPLACE FUNCTION insert_%s() RETURNS TRIGGER AS $$ BEGIN NEW._revision := (SELECT coalesce(max(_revision), 0) FROM %s WHERE "_sourceId" = NEW."_sourceId") + 1; RETURN NEW; END; $$ language plpgsql;''
       [tbl, tbl]\<close>

definition createInsertTrigger :: "string \<Rightarrow> string" where
  \<open>createInsertTrigger tbl =
     format ''CREATE TRIGGER insert_%s BEFORE INSERT ON %s FOR EACH ROW EXECUTE PROCEDURE insert_%s()''
       [tbl, tbl, tbl]\<close>




section \<open>The revision trigger\<close>

text \<open>
  A history table, as far as the trigger reads it: the rows in insertion order, each
  with its \<^verbatim>\<open>_sourceId\<close> and \<^verbatim>\<open>_revision\<close> columns (\<open>None\<close> is SQL's NULL) and the
  other columns in \<open>payload\<close>. \<^verbatim>\<open>_revision\<close> is an INTEGER column: a 32-bit signed
  value, and the database raises an error where an addition leaves that range.
\<close>

record ('id, 'p) history_row =
  sourceId :: "'id option"
  revision :: "int option"
  payload :: 'p

datatype db_error = IntegerOutOfRange | NotNullViolation | UniqueViolation

definition int4_max :: int where
  "int4_max = 2147483647"

definition int4_add :: "int \<Rightarrow> int \<Rightarrow> db_error + int" where
  "int4_add a b = (if a + b > int4_max \<or> a + b < - int4_max - 1 then Inl IntegerOutOfRange else Inr (a + b))"

text \<open>\<^verbatim>\<open>SELECT max(_revision) FROM <table> WHERE "_sourceId" = NEW."_sourceId"\<close>: the
  comparison holds for two equal values that are not NULL, and \<^verbatim>\<open>max\<close> skips NULLs and
  is NULL over no rows.\<close>

definition sql_eq :: "'a option \<Rightarrow> 'a option \<Rightarrow> bool" where
  "sql_eq a b = (case (a, b) of (Some x, Some y) \<Rightarrow> x = y | _ \<Rightarrow> False)"

definition select_max_revision :: "('id, 'p) history_row list \<Rightarrow> 'id option \<Rightarrow> int option" where
  "select_max_revision table sid =
     (let rs = List.map_filter revision (filter (\<lambda>r. sql_eq (sourceId r) sid) table)
      in if rs = [] then None else Some (Max (set rs)))"

definition coalesce :: "'a option \<Rightarrow> 'a \<Rightarrow> 'a" where
  "coalesce x d = (case x of None \<Rightarrow> d | Some v \<Rightarrow> v)"

text \<open>The trigger function of \<^verbatim>\<open>createInsertFn\<close>:
  \<^verbatim>\<open>NEW._revision := (SELECT coalesce(max(_revision), 0) ...) + 1; RETURN NEW;\<close>\<close>

definition insert_fn ::
  "('id, 'p) history_row list \<Rightarrow> ('id, 'p) history_row \<Rightarrow> db_error + ('id, 'p) history_row" where
  "insert_fn table new =
     (case int4_add (coalesce (select_max_revision table (sourceId new)) 0) 1 of
        Inl e \<Rightarrow> Inl e
      | Inr r \<Rightarrow> Inr (new\<lparr>revision := Some r\<rparr>))"

text \<open>
  An insert with the trigger installed (\<^verbatim>\<open>BEFORE INSERT ... FOR EACH ROW\<close>): the trigger
  function rewrites the row, then the table's constraints are checked on the rewritten
  row (\<^verbatim>\<open>_sourceId\<close> is \<^verbatim>\<open>allowNull: false\<close>; \<^verbatim>\<open>_sourceId\<close> and \<^verbatim>\<open>_revision\<close> carry the
  unique key \<^verbatim>\<open>naturalId\<close>), then the row is added.
\<close>

definition insert_row ::
  "('id, 'p) history_row list \<Rightarrow> ('id, 'p) history_row \<Rightarrow> db_error + ('id, 'p) history_row list" where
  "insert_row table new =
     (case insert_fn table new of
        Inl e \<Rightarrow> Inl e
      | Inr row \<Rightarrow>
          if sourceId row = None then Inl NotNullViolation
          else if \<exists>r \<in> set table. sql_eq (sourceId r) (sourceId row) \<and> sql_eq (revision r) (revision row)
          then Inl UniqueViolation
          else Inr (table @ [row]))"

text \<open>A sequence of inserts, each its own statement: a rejected insert leaves the table
  as it was.\<close>

definition insert_step ::
  "('id, 'p) history_row \<Rightarrow> ('id, 'p) history_row list \<Rightarrow> ('id, 'p) history_row list" where
  "insert_step new table = (case insert_row table new of Inl e \<Rightarrow> table | Inr table' \<Rightarrow> table')"

definition insert_all ::
  "('id, 'p) history_row list \<Rightarrow> ('id, 'p) history_row list \<Rightarrow> ('id, 'p) history_row list" where
  "insert_all news table = fold insert_step news table"

text \<open>The rows of one source id, in insertion order.\<close>

definition rows_of :: "'id \<Rightarrow> ('id, 'p) history_row list \<Rightarrow> ('id, 'p) history_row list" where
  "rows_of s table = filter (\<lambda>r. sourceId r = Some s) table"

text \<open>A table is numbered when no row has a NULL source id and the revisions of every
  source id are 1, 2, 3, ... in insertion order.\<close>


definition numbered :: "('id, 'p) history_row list \<Rightarrow> bool" where
  "numbered table \<longleftrightarrow>
     (\<forall>r \<in> set table. sourceId r \<noteq> None) \<and>
     (\<forall>s. map revision (rows_of s table) = map Some [1..int (length (rows_of s table))])"

section \<open>JavaScript values and the lodash functions the plugin calls\<close>

text \<open>
  The values the plugin handles. A number is an integer (exact in a double up to
  \<open>2^53\<close>) or NaN. \<open>JDate\<close> is a Date object, \<open>JFun\<close> a function with its name and
  its \<^verbatim>\<open>length\<close>, \<open>JOpaque\<close> any other object that is neither an array nor a plain
  object and has no \<^verbatim>\<open>length\<close> (a Sequelize data type), \<open>JArr\<close> an array without
  holes, \<open>JObj\<close> a plain object: its own enumerable properties in their order, each key
  once. Objects are values here: two structurally equal objects are the same object.
\<close>

datatype jsval =
    JUndefined
  | JNull
  | JBool bool
  | JNum int
  | JNaN
  | JStr string
  | JDate int
  | JFun string nat
  | JOpaque string
  | JArr "jsval list"
  | JObj "(string \<times> jsval) list"

type_synonym props = "(string \<times> jsval) list"

text \<open>
  A plain object inherits the members of \<^verbatim>\<open>Object.prototype\<close>: eleven functions, which are
  not enumerable, and the accessor \<^verbatim>\<open>__proto__\<close>, which reads the prototype itself (an
  object without enumerable properties of its own).
\<close>

definition Object_prototype :: props where
  "Object_prototype =
     [(''constructor'', JFun ''Object'' 1),
      (''toString'', JFun ''toString'' 0),
      (''toLocaleString'', JFun ''toLocaleString'' 0),
      (''valueOf'', JFun ''valueOf'' 0),
      (''hasOwnProperty'', JFun ''hasOwnProperty'' 1),
      (''isPrototypeOf'', JFun ''isPrototypeOf'' 1),
      (''propertyIsEnumerable'', JFun ''propertyIsEnumerable'' 1),
      (''__defineGetter__'', JFun ''__defineGetter__'' 2),
      (''__defineSetter__'', JFun ''__defineSetter__'' 2),
      (''__lookupGetter__'', JFun ''__lookupGetter__'' 1),
      (''__lookupSetter__'', JFun ''__lookupSetter__'' 1),
      (''__proto__'', JObj [])]"

text \<open>
  \<^verbatim>\<open>object[key]\<close> and \<^verbatim>\<open>key in object\<close> on a plain object: the object's own property
  of that name, and the inherited one where it has none. The key \<^verbatim>\<open>__proto__\<close> always
  reads the prototype (an own property of that name, which only \<^verbatim>\<open>JSON.parse\<close> or
  \<^verbatim>\<open>Object.defineProperty\<close> can make, is left out). \<^verbatim>\<open>object[key] = value\<close> makes or
  replaces the own property; for the key \<^verbatim>\<open>__proto__\<close> it goes to the accessor and
  makes no property (the one such assignment, in \<^verbatim>\<open>pickByArray\<close>, assigns the prototype
  the object has).
\<close>

definition get :: "props \<Rightarrow> string \<Rightarrow> jsval" where
  "get object key =
     (case (if key = ''__proto__'' then None else map_of object key) of
        Some v \<Rightarrow> v
      | None \<Rightarrow> (case map_of Object_prototype key of Some v \<Rightarrow> v | None \<Rightarrow> JUndefined))"

definition has :: "props \<Rightarrow> string \<Rightarrow> bool" where
  "has object key =
     (case map_of object key of
        Some v \<Rightarrow> True
      | None \<Rightarrow> (case map_of Object_prototype key of Some v \<Rightarrow> True | None \<Rightarrow> False))"

definition assign :: "string \<Rightarrow> jsval \<Rightarrow> props \<Rightarrow> props" where
  "assign key v object = (if key = ''__proto__'' then object else AList.update key v object)"

text \<open>What \<^verbatim>\<open>!value\<close> negates: every value is truthy but \<^verbatim>\<open>undefined\<close>, \<^verbatim>\<open>null\<close>,
  \<^verbatim>\<open>false\<close>, 0, NaN and the empty string.\<close>

definition truthy :: "jsval \<Rightarrow> bool" where
  "truthy v =
     (case v of
        JUndefined \<Rightarrow> False
      | JNull \<Rightarrow> False
      | JBool b \<Rightarrow> b
      | JNum n \<Rightarrow> n \<noteq> 0
      | JNaN \<Rightarrow> False
      | JStr s \<Rightarrow> s \<noteq> []
      | _ \<Rightarrow> True)"

definition isArray :: "jsval \<Rightarrow> bool" where
  "isArray v = (case v of JArr a \<Rightarrow> True | _ \<Rightarrow> False)"

definition isPlainObject :: "jsval \<Rightarrow> bool" where
  "isPlainObject v = (case v of JObj ob \<Rightarrow> True | _ \<Rightarrow> False)"

definition isString :: "jsval \<Rightarrow> bool" where
  "isString v = (case v of JStr s \<Rightarrow> True | _ \<Rightarrow> False)"

text \<open>The decimal form of a natural number: an array index as a property key, and
  \<^verbatim>\<open>String(n)\<close> for an integer below \<open>10^21\<close>.\<close>

definition digit_char :: "nat \<Rightarrow> char" where
  "digit_char d = ''0123456789'' ! d"

function show_nat :: "nat \<Rightarrow> string" where
  "show_nat n = (if n < 10 then [digit_char n] else show_nat (n div 10) @ [digit_char (n mod 10)])"
  by pat_completeness auto
termination
  by (relation "measure id") auto

definition show_int :: "int \<Rightarrow> string" where
  "show_int i = (if i < 0 then CHR ''-'' # show_nat (nat (- i)) else show_nat (nat i))"

text \<open>
  lodash 3 reads a value as a list of elements where it is array-like, that is where
  its \<^verbatim>\<open>length\<close> is an integer from 0 to \<open>2^53 - 1\<close>: an array, a string (its
  characters), an object with such a \<^verbatim>\<open>length\<close> property (the values at the keys
  \<^verbatim>\<open>0\<close>, \<^verbatim>\<open>1\<close>, ...) or a function (as many times \<^verbatim>\<open>undefined\<close> as its
  \<^verbatim>\<open>length\<close>). Every other value reads as the empty list. This is
  \<^verbatim>\<open>isArray(value) ? value : (isArrayLike(value) ? arrayCopy(value) : [])\<close>.
\<close>

definition arrayLike :: "jsval \<Rightarrow> jsval list" where
  "arrayLike v =
     (case v of
        JArr a \<Rightarrow> a
      | JStr s \<Rightarrow> map (\<lambda>c. JStr [c]) s
      | JFun n l \<Rightarrow> replicate l JUndefined
      | JObj ob \<Rightarrow>
          (case get ob ''length'' of
             JNum n \<Rightarrow> if 0 \<le> n \<and> n \<le> 9007199254740991
                       then map (\<lambda>i. get ob (show_nat i)) [0..<nat n] else []
           | _ \<Rightarrow> [])
      | _ \<Rightarrow> [])"

text \<open>
  \<^verbatim>\<open>_.pick(object, props)\<close> with an array of keys (\<^verbatim>\<open>pickByArray\<close>): for every key
  of \<open>props\<close>, in order, \<^verbatim>\<open>if (key in object) result[key] = object[key]\<close>, so that an
  inherited member that \<open>props\<close> names becomes a property of the result.
  \<^verbatim>\<open>_.omit(object, props)\<close>: the enumerable properties of the object without the keys
  of \<open>props\<close>.
  \<^verbatim>\<open>_.mapValues(object, f)\<close>: the same keys, \<open>f\<close> applied to every value.
\<close>

fun pickByArray :: "props \<Rightarrow> string list \<Rightarrow> props \<Rightarrow> props" where
  "pickByArray object [] result = result"
| "pickByArray object (key # ks) result =
     pickByArray object ks (if has object key then assign key (get object key) result else result)"

definition pick :: "props \<Rightarrow> string list \<Rightarrow> props" where
  "pick object ks = pickByArray object ks []"

definition omit :: "props \<Rightarrow> string list \<Rightarrow> props" where
  "omit object ks = filter (\<lambda>(k, v). k \<notin> set ks) object"

definition mapValues :: "props \<Rightarrow> (jsval \<Rightarrow> jsval) \<Rightarrow> props" where
  "mapValues object f = map (\<lambda>(k, v). (k, f v)) object"

text \<open>
  \<^verbatim>\<open>_.merge(object, source)\<close> of lodash 3 (\<^verbatim>\<open>baseMerge\<close>, \<^verbatim>\<open>baseMergeDeep\<close>), which merges
  recursively. For every property of the source, in order: a source value that is an
  array is merged element by element into the destination's value read as a list of
  elements; a plain object is merged into the destination's value where that is a plain
  object and into a new object otherwise; any other source value is assigned as it is,
  except that \<^verbatim>\<open>undefined\<close> is skipped (an array element that is \<^verbatim>\<open>undefined\<close> is
  assigned where the destination array has no such index). \<open>baseMergeDeep val src\<close>
  is the new value of a property whose value was \<open>val\<close>. (Where the destination's
  value is an object with a \<^verbatim>\<open>length\<close> of \<open>2^32\<close> or more, JavaScript cannot build
  the list of its elements and raises a RangeError; this is left out.)
\<close>

function baseMergeDeep :: "jsval \<Rightarrow> jsval \<Rightarrow> jsval"
  and baseMerge :: "props \<Rightarrow> props \<Rightarrow> props"
  and baseMergeArr :: "jsval list \<Rightarrow> jsval list \<Rightarrow> jsval list"
where
  "baseMergeDeep val (JArr src) = JArr (baseMergeArr (arrayLike val) src)"
| "baseMergeDeep val (JObj src) = JObj (baseMerge (case val of JObj ob \<Rightarrow> ob | _ \<Rightarrow> []) src)"
| "baseMergeDeep val JUndefined = JUndefined"
| "baseMergeDeep val JNull = JNull"
| "baseMergeDeep val (JBool b) = JBool b"
| "baseMergeDeep val (JNum n) = JNum n"
| "baseMergeDeep val JNaN = JNaN"
| "baseMergeDeep val (JStr s) = JStr s"
| "baseMergeDeep val (JDate d) = JDate d"
| "baseMergeDeep val (JFun n l) = JFun n l"
| "baseMergeDeep val (JOpaque n) = JOpaque n"
| "baseMerge object [] = object"
| "baseMerge object ((key, srcValue) # source) =
     baseMerge
       (if srcValue = JUndefined then object
        else AList.update key (baseMergeDeep (get object key) srcValue) object)
       source"
| "baseMergeArr object [] = object"
| "baseMergeArr [] (srcValue # source) = baseMergeDeep JUndefined srcValue # baseMergeArr [] source"
| "baseMergeArr (val # object) (srcValue # source) =
     (if srcValue = JUndefined then val else baseMergeDeep val srcValue) # baseMergeArr object source"
  by pat_completeness auto
termination
  by (relation "measure (\<lambda>x. case x of
          Inl (v, s) \<Rightarrow> 2 * size s
        | Inr (Inl (ob, src)) \<Rightarrow> 2 * size_list (size_prod (\<lambda>k. 0) size) src + 1
        | Inr (Inr (ob, src)) \<Rightarrow> 2 * size_list size src + 1)") auto

definition merge :: "props \<Rightarrow> props \<Rightarrow> props" where
  "merge object source = baseMerge object source"

text \<open>
  \<^verbatim>\<open>_.intersection(array, other)\<close>: the values of the first argument that are in the
  second, each once, in the order of the first; an argument that is not array-like
  counts as empty. The loop keeps the result so far.
\<close>

fun intersection_loop :: "jsval list \<Rightarrow> jsval list \<Rightarrow> jsval list \<Rightarrow> jsval list" where
  "intersection_loop result [] other = result"
| "intersection_loop result (v # array) other =
     intersection_loop (if v \<notin> set result \<and> v \<in> set other then result @ [v] else result) array other"

definition intersection :: "jsval \<Rightarrow> jsval \<Rightarrow> jsval list" where
  "intersection array other = intersection_loop [] (arrayLike array) (arrayLike other)"


section \<open>Option validation\<close>

text \<open>
  A Sequelize model, as far as the plugin reads it: its name, its table name and its
  attributes, each attribute name with its definition, a plain object
  (\<^verbatim>\<open>{type: ..., allowNull: ..., ...}\<close>). \<^verbatim>\<open>model.attributes\<close> is itself a plain
  object, with the definitions as its own properties.
\<close>

record model =
  name :: string
  tableName :: string
  attributes :: "(string \<times> props) list"

definition attributes_object :: "model \<Rightarrow> props" where
  "attributes_object m = map (\<lambda>(k, a). (k, JObj a)) (attributes m)"

text \<open>
  What a call ends with instead of a value: a joi validation error (at a key), an
  \<^verbatim>\<open>Error\<close> or a \<^verbatim>\<open>TypeError\<close> thrown in JavaScript, an error raised by the persistence
  layer, or, for the two array snippets, a step outside the part of JavaScript that is
  modelled.
\<close>

datatype error =
    ValidationError string
  | Error string
  | TypeError string
  | PersistenceError
  | Unsupported string

text \<open>
  The two joi rules of \<^verbatim>\<open>internals.optionsSchema\<close>, each with its default:
  \<^verbatim>\<open>joi.string().default(d)\<close> and \<^verbatim>\<open>joi.array().items(joi.string()).single().default(d)\<close>.
\<close>

datatype joi_rule =
    Joi_string string
  | Joi_array_of_string_single "string list"

definition optionsSchema :: "model \<Rightarrow> (string \<times> joi_rule) list" where
  "optionsSchema m =
     [(''track'', Joi_array_of_string_single (map fst (attributes m))),
      (''idAttr'', Joi_string ''id''),
      (''modelName'', Joi_string (name m @ ''History'')),
      (''tableName'', Joi_string (tableName m @ ''_history''))]"

text \<open>
  joi's validation of one value against a rule, at the key \<open>key\<close>. A value that is
  \<^verbatim>\<open>undefined\<close> takes the default. \<^verbatim>\<open>joi.string()\<close> accepts a string that is not
  empty. \<^verbatim>\<open>joi.array()\<close> first converts a string that parses as a JSON array into that
  array (\<open>json_array\<close> stands for \<^verbatim>\<open>JSON.parse\<close> where it yields an array);
  \<^verbatim>\<open>single()\<close> then wraps a value that is not an array into an array of one item;
  \<^verbatim>\<open>items(joi.string())\<close> then checks every item.
\<close>

definition joi_string :: "string \<Rightarrow> jsval \<Rightarrow> error + jsval" where
  "joi_string key v =
     (case v of JStr s \<Rightarrow> if s = [] then Inl (ValidationError key) else Inr (JStr s)
      | _ \<Rightarrow> Inl (ValidationError key))"

fun joi_items :: "string \<Rightarrow> jsval list \<Rightarrow> error + jsval list" where
  "joi_items key [] = Inr []"
| "joi_items key (v # vs) =
     (case joi_string key v of
        Inl e \<Rightarrow> Inl e
      | Inr s \<Rightarrow> (case joi_items key vs of Inl e \<Rightarrow> Inl e | Inr ss \<Rightarrow> Inr (s # ss)))"

definition joi_convert_array :: "(string \<Rightarrow> jsval list option) \<Rightarrow> jsval \<Rightarrow> jsval" where
  "joi_convert_array json_array v =
     (case v of
        JStr s \<Rightarrow> (case json_array s of Some a \<Rightarrow> JArr a | None \<Rightarrow> v)
      | _ \<Rightarrow> v)"

definition joi_single :: "jsval \<Rightarrow> jsval list" where
  "joi_single v = (case v of JArr a \<Rightarrow> a | _ \<Rightarrow> [v])"

definition joi_value ::
  "(string \<Rightarrow> jsval list option) \<Rightarrow> string \<Rightarrow> joi_rule \<Rightarrow> jsval \<Rightarrow> error + jsval" where
  "joi_value json_array key rule v =
     (case rule of
        Joi_string d \<Rightarrow> if v = JUndefined then Inr (JStr d) else joi_string key v
      | Joi_array_of_string_single d \<Rightarrow>
          if v = JUndefined then Inr (JArr (map JStr d))
          else (case joi_items key (joi_single (joi_convert_array json_array v)) of
                  Inl e \<Rightarrow> Inl e
                | Inr a \<Rightarrow> Inr (JArr a)))"

text \<open>
  \<^verbatim>\<open>joi.validate(options, schema)\<close> on a plain object: every key of the schema is
  validated in the schema's order and its validated value stored, the first failure
  being the error; after that a key of the object that the schema does not have is an
  error.
\<close>

fun joi_keys ::
  "(string \<Rightarrow> jsval list option) \<Rightarrow> (string \<times> joi_rule) list \<Rightarrow> props \<Rightarrow> error + props" where
  "joi_keys json_array [] object = Inr object"
| "joi_keys json_array ((key, rule) # schema) object =
     (case joi_value json_array key rule (get object key) of
        Inl e \<Rightarrow> Inl e
      | Inr v \<Rightarrow> joi_keys json_array schema (AList.update key v object))"

definition joi_validate ::
  "(string \<Rightarrow> jsval list option) \<Rightarrow> props \<Rightarrow> (string \<times> joi_rule) list \<Rightarrow> error + props" where
  "joi_validate json_array object schema =
     (case joi_keys json_array schema object of
        Inl e \<Rightarrow> Inl e
      | Inr validated \<Rightarrow>
          (case filter (\<lambda>k. k \<notin> set (map fst schema)) (map fst object) of
             [] \<Rightarrow> Inr validated
           | k # ks \<Rightarrow> Inl (ValidationError k)))"

text \<open>The validated options, as the rest of the plugin reads them:
  \<^verbatim>\<open>options.track\<close>, \<^verbatim>\<open>options.idAttr\<close>, \<^verbatim>\<open>options.modelName\<close>, \<^verbatim>\<open>options.tableName\<close>.\<close>

definition strings_of :: "jsval \<Rightarrow> string list" where
  "strings_of v = List.map_filter (\<lambda>x. case x of JStr s \<Rightarrow> Some s | _ \<Rightarrow> None) (arrayLike v)"

definition string_of :: "jsval \<Rightarrow> string" where
  "string_of v = (case v of JStr s \<Rightarrow> s | _ \<Rightarrow> [])"

definition track :: "props \<Rightarrow> string list" where
  "track options = strings_of (get options ''track'')"

definition idAttr :: "props \<Rightarrow> string" where
  "idAttr options = string_of (get options ''idAttr'')"

definition modelName :: "props \<Rightarrow> string" where
  "modelName options = string_of (get options ''modelName'')"

definition options_tableName :: "props \<Rightarrow> string" where
  "options_tableName options = string_of (get options ''tableName'')"

section \<open>The history model\<close>

text \<open>Sequelize's data types are objects of their own classes, named here by how the
  source writes them.\<close>

definition INTEGER :: jsval where "INTEGER = JOpaque ''INTEGER''"
definition STRING :: jsval where "STRING = JOpaque ''STRING''"
definition DATE :: jsval where "DATE = JOpaque ''DATE''"
definition ARRAY_STRING :: jsval where "ARRAY_STRING = JOpaque ''ARRAY(STRING)''"

text \<open>\<^verbatim>\<open>metaAttrs\<close>, given \<^verbatim>\<open>idAttr\<close>, the value of
  \<^verbatim>\<open>model.attributes[options.idAttr]\<close>. \<^verbatim>\<open>idAttr.type\<close> is the \<^verbatim>\<open>type\<close> of an attribute's
  definition; a function of \<^verbatim>\<open>Object.prototype\<close> has no such property.\<close>

definition type_of :: "jsval \<Rightarrow> jsval" where
  "type_of idAttrVal = (case idAttrVal of JObj a \<Rightarrow> get a ''type'' | _ \<Rightarrow> JUndefined)"

definition metaAttrs :: "jsval \<Rightarrow> props" where
  "metaAttrs idAttrVal =
     [(''_id'', JObj [(''type'', INTEGER), (''primaryKey'', JBool True), (''autoIncrement'', JBool True)]),
      (''_sourceId'', JObj [(''type'', type_of idAttrVal), (''allowNull'', JBool False),
                           (''unique'', JStr ''naturalId'')]),
      (''_revision'', JObj [(''type'', INTEGER), (''unique'', JStr ''naturalId'')]),
      (''_user'', STRING),
      (''_date'', DATE),
      (''_changes'', ARRAY_STRING)]"

text \<open>What \<^verbatim>\<open>createHistoryModel\<close> hands to \<^verbatim>\<open>sequelize.define\<close>, and the association
  that \<^verbatim>\<open>associate\<close> adds.\<close>

record association =
  target :: string
  as_alias :: string
  foreignKey :: string
  onDelete :: string

record history_model =
  hm_modelName :: string
  hm_attributes :: props
  hm_tableName :: string
  hm_timestamps :: bool
  hm_indexes :: "string list list"
  hm_belongsTo :: "association list"

text \<open>The tracked attributes of the history model,
  \<^verbatim>\<open>_(model.attributes).pick(options.track).mapValues(attr => _.omit(attr, 'autoIncrement'))\<close>,
  and all its attributes, the meta attributes merged into the tracked ones. What
  \<^verbatim>\<open>pick\<close> finds is an attribute's definition or an inherited function, and
  \<^verbatim>\<open>_.omit\<close> of a function, which has no enumerable property, is an empty object.\<close>

definition tracked_attrs :: "model \<Rightarrow> props \<Rightarrow> props" where
  "tracked_attrs m options =
     mapValues (pick (attributes_object m) (track options))
       (\<lambda>attr. case attr of JObj a \<Rightarrow> JObj (omit a [''autoIncrement'']) | _ \<Rightarrow> JObj [])"

definition history_attrs :: "model \<Rightarrow> props \<Rightarrow> jsval \<Rightarrow> props" where
  "history_attrs m options idAttrVal = merge (tracked_attrs m options) (metaAttrs idAttrVal)"

text \<open>
  \<^verbatim>\<open>sequelize.define(modelName, attrs, modelOpts)\<close>, as far as it can fail on the
  attributes handed over: Sequelize reads an attribute that is no plain object as
  \<^verbatim>\<open>{type: attribute}\<close> and throws at the first attribute whose \<^verbatim>\<open>type\<close> is
  \<^verbatim>\<open>undefined\<close>. The model options carry the table name, \<^verbatim>\<open>timestamps: false\<close> and the
  index on \<^verbatim>\<open>_sourceId\<close>.
\<close>

definition normalizeAttribute :: "jsval \<Rightarrow> props" where
  "normalizeAttribute attribute = (case attribute of JObj a \<Rightarrow> a | _ \<Rightarrow> [(''type'', attribute)])"

definition sequelize_define :: "string \<Rightarrow> props \<Rightarrow> string \<Rightarrow> error + history_model" where
  "sequelize_define mName attrs tbl =
     (case filter (\<lambda>(k, a). get (normalizeAttribute a) ''type'' = JUndefined) attrs of
        (k, a) # rest \<Rightarrow> Inl (Error (''Unrecognized data type for field '' @ k))
      | [] \<Rightarrow>
          Inr \<lparr>hm_modelName = mName,
               hm_attributes = attrs,
               hm_tableName = tbl,
               hm_timestamps = False,
               hm_indexes = [[''_sourceId'']],
               hm_belongsTo = []\<rparr>)"

text \<open>
  \<^verbatim>\<open>internals.createHistoryModel\<close>. The guard \<^verbatim>\<open>if (!idAttr) throw ...\<close> tests the
  value of \<^verbatim>\<open>model.attributes[options.idAttr]\<close>: \<^verbatim>\<open>undefined\<close>, which is falsy,
  where the name is neither an attribute nor inherited, and otherwise the attribute's
  definition or the inherited member, both truthy.
\<close>

definition createHistoryModel :: "model \<Rightarrow> props \<Rightarrow> error + history_model" where
  "createHistoryModel m options =
     (let idAttrVal = get (attributes_object m) (idAttr options)
      in if \<not> truthy idAttrVal
         then Inl (Error (''Invalid id attribute for model '' @ name m @ '': '' @ idAttr options))
         else sequelize_define (modelName options) (history_attrs m options idAttrVal) (options_tableName options))"

definition associate :: "history_model \<Rightarrow> model \<Rightarrow> history_model" where
  "associate historyModel sourceModel =
     historyModel\<lparr>hm_belongsTo := hm_belongsTo historyModel @
        [\<lparr>target = name sourceModel, as_alias = ''source'', foreignKey = ''_sourceId'', onDelete = ''cascade''\<rparr>]\<rparr>"

section \<open>Writing history\<close>

text \<open>
  A source instance after an update, as the hook reads it: its current values, its
  values before the update (\<^verbatim>\<open>_previousDataValues\<close>), and the names that
  \<^verbatim>\<open>instance.changed()\<close> reports. \<^verbatim>\<open>changed()\<close> returns the array of names, or
  \<^verbatim>\<open>false\<close> where there is none.
\<close>

record source_instance =
  dataValues :: props
  previousDataValues :: props
  changed_names :: "string list"

definition changed :: "source_instance \<Rightarrow> jsval" where
  "changed inst = (if changed_names inst = [] then JBool False else JArr (map JStr (changed_names inst)))"

text \<open>\<^verbatim>\<open>internals.writeHistory\<close>: the record handed to \<^verbatim>\<open>historyModel.create\<close>;
  \<open>now\<close> is the time \<^verbatim>\<open>new Date()\<close> reads. \<^verbatim>\<open>instance[options.idAttr]\<close> is the
  current value of the attribute of that name (the methods that Sequelize gives an
  instance are not part of the model: a name that is no attribute reads as on a plain
  object).\<close>

definition writeHistory :: "props \<Rightarrow> int \<Rightarrow> source_instance \<Rightarrow> props" where
  "writeHistory options now inst =
     merge (pick (previousDataValues inst) (track options))
       [(''_sourceId'', get (dataValues inst) (idAttr options)),
        (''_date'', JDate now),
        (''_changes'', changed inst)]"

text \<open>The hook that \<^verbatim>\<open>internals.addHooks\<close> registers with \<^verbatim>\<open>afterUpdate\<close>: the records
  it has \<^verbatim>\<open>historyModel.create\<close> called with, one or none.\<close>

definition afterUpdate :: "props \<Rightarrow> int \<Rightarrow> source_instance \<Rightarrow> props list" where
  "afterUpdate options now inst =
     (if length (intersection (changed inst) (JArr (map JStr (track options)))) > 0
      then [writeHistory options now inst]
      else [])"

section \<open>Attaching the plugin\<close>

text \<open>
  \<^verbatim>\<open>module.exports\<close>: the options object made of the call's arguments. The function it
  returns keeps that object in the variable \<^verbatim>\<open>options\<close> and replaces it by the
  validated options each time it is applied to a model; \<open>attach\<close> is one such
  application, returning the outcome and the new contents of the variable. An attached
  plugin is the history model with its association, and the options its hook was
  registered with.
\<close>

definition plugin_options :: "jsval list \<Rightarrow> props" where
  "plugin_options arguments =
     (let options = (case arguments of [] \<Rightarrow> JUndefined | a # as \<Rightarrow> a);
          options1 = (if isArray options then JObj [(''track'', options)] else options)
      in case options1 of JObj ob \<Rightarrow> ob | _ \<Rightarrow> [(''track'', JArr arguments)])"

record attached =
  historyModel :: history_model
  hook_options :: props

definition addHooks :: "history_model \<Rightarrow> model \<Rightarrow> props \<Rightarrow> attached" where
  "addHooks hm sourceModel options = \<lparr>historyModel = hm, hook_options = options\<rparr>"

definition attach ::
  "(string \<Rightarrow> jsval list option) \<Rightarrow> props \<Rightarrow> model \<Rightarrow> (error + attached) \<times> props" where
  "attach json_array options m =
     (case joi_validate json_array options (optionsSchema m) of
        Inl err \<Rightarrow> (Inl err, options)
      | Inr validated \<Rightarrow>
          (case createHistoryModel m validated of
             Inl err \<Rightarrow> (Inl err, validated)
           | Inr hm \<Rightarrow> (Inr (addHooks (associate hm m) m validated), validated)))"

section \<open>Restoring a revision\<close>

text \<open>
  \<^verbatim>\<open>instanceMethods.restore\<close> on a history row \<open>this\<close>, over the source table (its rows
  in order). \<^verbatim>\<open>getSource\<close> is the getter of the \<^verbatim>\<open>belongsTo\<close> association: it finds the
  source row whose primary key \<open>pk\<close> equals the row's \<^verbatim>\<open>_sourceId\<close> and resolves to
  \<^verbatim>\<open>null\<close> where there is none. \<^verbatim>\<open>source.update(values)\<close> sets the values on the row
  and saves it; \<open>accepts\<close> says which rows the database lets be saved.
\<close>

definition is_source :: "string \<Rightarrow> props \<Rightarrow> props \<Rightarrow> bool" where
  "is_source pk this row \<longleftrightarrow>
     get row pk = get this ''_sourceId'' \<and> get this ''_sourceId'' \<noteq> JNull \<and> get this ''_sourceId'' \<noteq> JUndefined"

definition getSource :: "string \<Rightarrow> props \<Rightarrow> props list \<Rightarrow> props option" where
  "getSource pk this table = find (is_source pk this) table"

definition set_values :: "props \<Rightarrow> props \<Rightarrow> props" where
  "set_values row values = fold (\<lambda>(k, v) r. AList.update k v r) values row"

fun save_row :: "string \<Rightarrow> props \<Rightarrow> props \<Rightarrow> props list \<Rightarrow> props list" where
  "save_row pk this row' [] = []"
| "save_row pk this row' (row # table) =
     (if is_source pk this row then row' # table else row # save_row pk this row' table)"

definition restore ::
  "props \<Rightarrow> string \<Rightarrow> (props \<Rightarrow> bool) \<Rightarrow> props \<Rightarrow> props list \<Rightarrow> (error + props) \<times> props list" where
  "restore options pk accepts this table =
     (let values = pick this (track options)
      in case getSource pk this table of
           None \<Rightarrow> (Inl (TypeError ''Cannot read property update of null''), table)
         | Some source \<Rightarrow>
             (let source' = set_values source values
              in if accepts source' then (Inr source', save_row pk this source' table)
                 else (Inl PersistenceError, table)))"


section \<open>The two array snippets\<close>

text \<open>
  A JavaScript function takes its \<^verbatim>\<open>this\<close> value and its arguments. Both snippets are
  sloppy-mode code: a function called with \<^verbatim>\<open>this\<close> \<^verbatim>\<open>undefined\<close> or \<^verbatim>\<open>null\<close> sees the
  global object, which has no property \<^verbatim>\<open>b\<close> (it is modelled as an empty object).
\<close>

type_synonym jsfun = "jsval \<Rightarrow> jsval list \<Rightarrow> error + jsval"

definition this_sloppy :: "jsval \<Rightarrow> jsval" where
  "this_sloppy this = (case this of JUndefined \<Rightarrow> JObj [] | JNull \<Rightarrow> JObj [] | _ \<Rightarrow> this)"

text \<open>\<^verbatim>\<open>value.key\<close>: the property of a plain object, a TypeError on \<^verbatim>\<open>undefined\<close> and
  \<^verbatim>\<open>null\<close>.\<close>

definition member :: "jsval \<Rightarrow> string \<Rightarrow> error + jsval" where
  "member v key =
     (case v of
        JObj ob \<Rightarrow> Inr (get ob key)
      | JUndefined \<Rightarrow> Inl (TypeError ''Cannot read property of undefined'')
      | JNull \<Rightarrow> Inl (TypeError ''Cannot read property of null'')
      | _ \<Rightarrow> Inl (Unsupported ''property of a value that is not a plain object''))"

text \<open>
  \<^verbatim>\<open>x + y\<close> on primitive values: concatenation where an operand is a string, and
  otherwise the sum of the operands as numbers (\<^verbatim>\<open>undefined\<close> is NaN, \<^verbatim>\<open>null\<close> is 0,
  \<^verbatim>\<open>true\<close> is 1), exact while it stays a safe integer.
\<close>

definition toString :: "jsval \<Rightarrow> error + string" where
  "toString v =
     (case v of
        JUndefined \<Rightarrow> Inr ''undefined''
      | JNull \<Rightarrow> Inr ''null''
      | JBool b \<Rightarrow> Inr (if b then ''true'' else ''false'')
      | JNum n \<Rightarrow> Inr (show_int n)
      | JNaN \<Rightarrow> Inr ''NaN''
      | JStr s \<Rightarrow> Inr s
      | _ \<Rightarrow> Inl (Unsupported ''string of an object''))"

definition toNumber :: "jsval \<Rightarrow> error + jsval" where
  "toNumber v =
     (case v of
        JUndefined \<Rightarrow> Inr JNaN
      | JNull \<Rightarrow> Inr (JNum 0)
      | JBool b \<Rightarrow> Inr (JNum (if b then 1 else 0))
      | JNum n \<Rightarrow> Inr (JNum n)
      | JNaN \<Rightarrow> Inr JNaN
      | _ \<Rightarrow> Inl (Unsupported ''number of a string or an object''))"

definition js_add :: "jsval \<Rightarrow> jsval \<Rightarrow> error + jsval" where
  "js_add x y =
     (case (toString x, toString y) of
        (Inl e, _) \<Rightarrow> Inl e
      | (_, Inl e) \<Rightarrow> Inl e
      | (Inr sx, Inr sy) \<Rightarrow>
          if isString x \<or> isString y then Inr (JStr (sx @ sy))
          else (case (toNumber x, toNumber y) of
                  (Inr (JNum a), Inr (JNum b)) \<Rightarrow>
                    if \<bar>a + b\<bar> \<le> 9007199254740991 then Inr (JNum (a + b))
                    else Inl (Unsupported ''rounding'')
                | (Inr _, Inr _) \<Rightarrow> Inr JNaN
                | (Inl e, _) \<Rightarrow> Inl e
                | (_, Inl e) \<Rightarrow> Inl e))"

text \<open>The function both snippets pass to \<^verbatim>\<open>_.map\<close>:
  \<^verbatim>\<open>function(obj) {return obj.a + this.b}\<close>.\<close>

definition iteratee :: jsfun where
  "iteratee this arguments =
     (case member (case arguments of [] \<Rightarrow> JUndefined | obj # rest \<Rightarrow> obj) ''a'' of
        Inl e \<Rightarrow> Inl e
      | Inr x \<Rightarrow>
          (case member (this_sloppy this) ''b'' of
             Inl e \<Rightarrow> Inl e
           | Inr y \<Rightarrow> js_add x y))"

text \<open>\<^verbatim>\<open>Function.prototype.bind\<close> with a \<^verbatim>\<open>this\<close> value only: the bound function
  ignores the \<^verbatim>\<open>this\<close> it is called with.\<close>

definition bind :: "jsfun \<Rightarrow> jsval \<Rightarrow> jsfun" where
  "bind f thisArg = (\<lambda>this arguments. f thisArg arguments)"

text \<open>
  \<^verbatim>\<open>_.map(collection, iteratee, thisArg)\<close> of lodash 3 on an array. The iteratee is
  called with value, index and collection, and with \<^verbatim>\<open>this\<close> \<^verbatim>\<open>undefined\<close>;
  \<^verbatim>\<open>bindCallback\<close> wraps it, where \<^verbatim>\<open>thisArg\<close> is not \<^verbatim>\<open>undefined\<close>, into a function that
  calls it on \<^verbatim>\<open>thisArg\<close>. An error thrown by the iteratee ends the map.
\<close>

definition bindCallback :: "jsfun \<Rightarrow> jsval \<Rightarrow> jsfun" where
  "bindCallback func thisArg =
     (if thisArg = JUndefined then func
      else (\<lambda>this arguments. func thisArg (take 3 arguments)))"

fun arrayMap :: "jsfun \<Rightarrow> jsval list \<Rightarrow> nat \<Rightarrow> jsval list \<Rightarrow> error + jsval list" where
  "arrayMap f array index [] = Inr []"
| "arrayMap f array index (v # rest) =
     (case f JUndefined [v, JNum (int index), JArr array] of
        Inl e \<Rightarrow> Inl e
      | Inr r \<Rightarrow>
          (case arrayMap f array (Suc index) rest of
             Inl e \<Rightarrow> Inl e
           | Inr rs \<Rightarrow> Inr (r # rs)))"

definition map_lodash :: "jsval \<Rightarrow> jsfun \<Rightarrow> jsval \<Rightarrow> error + jsval list" where
  "map_lodash collection f thisArg =
     (case collection of
        JArr array \<Rightarrow> arrayMap (bindCallback f thisArg) array 0 array
      | _ \<Rightarrow> Inl (Unsupported ''map over a collection that is not an array''))"

text \<open>From lodash 4 on \<^verbatim>\<open>_.map\<close> takes no \<^verbatim>\<open>thisArg\<close>: the iteratee is called as it is,
  whatever a third argument holds. The snippets are compared under lodash 3; this
  variant of the function shows what the comparison rests on.\<close>

definition map_lodash4 :: "jsval \<Rightarrow> jsfun \<Rightarrow> jsval \<Rightarrow> error + jsval list" where
  "map_lodash4 collection f ignored =
     (case collection of
        JArr array \<Rightarrow> arrayMap f array 0 array
      | _ \<Rightarrow> Inl (Unsupported ''map over a collection that is not an array''))"

text \<open>\<^verbatim>\<open>array.join(separator)\<close>: the elements as strings, \<^verbatim>\<open>undefined\<close> and \<^verbatim>\<open>null\<close> as
  the empty string, with the separator between them.\<close>

fun join :: "jsval list \<Rightarrow> string \<Rightarrow> error + string" where
  "join [] separator = Inr []"
| "join (v # rest) separator =
     (case (if v = JUndefined \<or> v = JNull then Inr [] else toString v) of
        Inl e \<Rightarrow> Inl e
      | Inr s \<Rightarrow>
          (if rest = [] then Inr s
           else (case join rest separator of Inl e \<Rightarrow> Inl e | Inr t \<Rightarrow> Inr (s @ separator @ t))))"

text \<open>
  The two snippets: their array \<^verbatim>\<open>transformed\<close> and the line they print. The one of
  \<^verbatim>\<open>src/index.js\<close> binds the context to the function; the variant passes it to
  \<^verbatim>\<open>_.map\<close> as \<^verbatim>\<open>thisArg\<close>.
\<close>

definition arr :: jsval where
  "arr = JArr [JObj [(''a'', JNum 3)], JObj [(''a'', JNum 4)]]"

definition ctx :: jsval where
  "ctx = JObj [(''b'', JNum 5)]"

definition transformed_bind :: "error + jsval list" where
  "transformed_bind = map_lodash arr (bind iteratee ctx) JUndefined"

definition transformed_thisArg :: "error + jsval list" where
  "transformed_thisArg = map_lodash arr iteratee ctx"

definition console_log_join :: "error + jsval list \<Rightarrow> error + string" where
  "console_log_join transformed =
     (case transformed of Inl e \<Rightarrow> Inl e | Inr array \<Rightarrow> join array '', '')"


section \<open>Properties of the generated SQL\<close>

lemma dropInsertTrigger_text:
  \<open>dropInsertTrigger t = ''DROP TRIGGER IF EXISTS insert_'' @ t @ '' ON '' @ t\<close>
  by (simp add: dropInsertTrigger_def)

lemma createInsertFn_text:
  \<open>createInsertFn t = ''CREATE OR REPLACE FUNCTION insert_'' @ t @ ''() RETURNS TRIGGER AS $$ BEGIN NEW._revision := (SELECT coalesce(max(_revision), 0) FROM '' @ t @ '' WHERE "_sourceId" = NEW."_sourceId") + 1; RETURN NEW; END; $$ language plpgsql;''\<close>
  by (simp add: createInsertFn_def)

lemma createInsertTrigger_text:
  \<open>createInsertTrigger t = ''CREATE TRIGGER insert_'' @ t @ '' BEFORE INSERT ON '' @ t @ '' FOR EACH ROW EXECUTE PROCEDURE insert_'' @ t @ ''()''\<close>
  by (simp add: createInsertTrigger_def)

text \<open>
  Claim C6, as the specification words it, gives the function statement without a space
  after the comma of \<^verbatim>\<open>coalesce(max(_revision),0)\<close> and with \<^verbatim>\<open>LANGUAGE\<close> in capitals.
  The statement the code issues for the table \<^verbatim>\<open>order_history\<close> is not that text.
\<close>

theorem sync_sql_spec_text_counterexample:
  \<open>createInsertFn ''order_history'' \<noteq>
     ''CREATE OR REPLACE FUNCTION insert_order_history() RETURNS TRIGGER AS $$ BEGIN NEW._revision := (SELECT coalesce(max(_revision),0) FROM order_history WHERE "_sourceId" = NEW."_sourceId") + 1; RETURN NEW; END; $$ LANGUAGE plpgsql;''\<close>
  by (simp add: createInsertFn_def)

text \<open>
  Claim C6, amended: for every table name \<open>t\<close> the three statements are, character for
  character, the drop statement and the trigger statement of the specification, and the
  function statement with \<^verbatim>\<open>coalesce(max(_revision), 0)\<close> (a space after the comma) and
  \<^verbatim>\<open>language plpgsql\<close> in lower case.
\<close>

theorem sync_sql_text:
  \<open>dropInsertTrigger t = ''DROP TRIGGER IF EXISTS insert_'' @ t @ '' ON '' @ t \<and>
   createInsertFn t = ''CREATE OR REPLACE FUNCTION insert_'' @ t @ ''() RETURNS TRIGGER AS $$ BEGIN NEW._revision := (SELECT coalesce(max(_revision), 0) FROM '' @ t @ '' WHERE "_sourceId" = NEW."_sourceId") + 1; RETURN NEW; END; $$ language plpgsql;'' \<and>
   createInsertTrigger t = ''CREATE TRIGGER insert_'' @ t @ '' BEFORE INSERT ON '' @ t @ '' FOR EACH ROW EXECUTE PROCEDURE insert_'' @ t @ ''()''\<close>
  by (simp only: dropInsertTrigger_text createInsertFn_text createInsertTrigger_text)

section \<open>The order of the sync steps\<close>






section \<open>Properties of the revision trigger\<close>

lemma map_filter_map_Some: "map f xs = map Some ys \<Longrightarrow> List.map_filter f xs = ys"
  by (induction xs arbitrary: ys) auto

lemma sql_eq_Some [simp]: "sql_eq x (Some s) \<longleftrightarrow> x = Some s"
  by (cases x) (auto simp: sql_eq_def)

lemma sql_eq_None [simp]: "\<not> sql_eq x None"
  by (cases x) (auto simp: sql_eq_def)

lemma Max_upto: "0 < n \<Longrightarrow> Max {1..int n} = int n"
  by (simp add: Max_eq_iff)

lemma select_max_numbered:
  assumes "numbered table"
  shows "coalesce (select_max_revision table (Some s)) 0 = int (length (rows_of s table))"
proof -
  have m: "map revision (rows_of s table) = map Some [1..int (length (rows_of s table))]"
    using assms by (simp add: numbered_def)
  have "List.map_filter revision (rows_of s table) = [1..int (length (rows_of s table))]"
    by (rule map_filter_map_Some [OF m])
  then have "List.map_filter revision (filter (\<lambda>r. sql_eq (sourceId r) (Some s)) table)
      = [1..int (length (rows_of s table))]"
    by (simp add: rows_of_def)
  then show ?thesis
    by (cases "length (rows_of s table) = 0")
      (simp_all add: select_max_revision_def coalesce_def Max_upto)
qed

lemma upto_snoc: "[1..1 + int n] = [1..int n] @ [int n + 1]"
  by (simp add: upto_rec2 add.commute)

lemma insert_row_numbered:
  assumes "numbered table" and "insert_row table new = Inr table'"
  shows "numbered table'"
proof -
  from assms(2) obtain s where s: "sourceId new = Some s"
    by (cases "sourceId new") (auto simp: insert_row_def insert_fn_def split: sum.splits if_splits)
  have c: "coalesce (select_max_revision table (Some s)) 0 = int (length (rows_of s table))"
    by (rule select_max_numbered [OF assms(1)])
  from assms(2) s c have t': "table' = table @ [new\<lparr>revision := Some (int (length (rows_of s table)) + 1)\<rparr>]"
    by (auto simp: insert_row_def insert_fn_def int4_add_def split: sum.splits if_splits)
  show ?thesis
    unfolding numbered_def
  proof (intro conjI ballI allI)
    fix r assume "r \<in> set table'"
    then show "sourceId r \<noteq> None"
      using assms(1) s by (auto simp: t' numbered_def)
  next
    fix u
    show "map revision (rows_of u table') = map Some [1..int (length (rows_of u table'))]"
    proof (cases "u = s")
      case True
      have "map revision (rows_of s table) = map Some [1..int (length (rows_of s table))]"
        using assms(1) by (simp add: numbered_def)
      then show ?thesis
        using s True by (simp add: t' rows_of_def upto_snoc)
    next
      case False
      have "map revision (rows_of u table) = map Some [1..int (length (rows_of u table))]"
        using assms(1) by (simp add: numbered_def)
      then show ?thesis
        using s False by (simp add: t' rows_of_def)
    qed
  qed
qed

lemma insert_step_numbered: "numbered table \<Longrightarrow> numbered (insert_step new table)"
  by (auto simp: insert_step_def split: sum.splits dest: insert_row_numbered)

lemma insert_all_numbered: "numbered table \<Longrightarrow> numbered (insert_all news table)"
  unfolding insert_all_def
  by (induction news arbitrary: table) (auto simp: insert_step_numbered)

lemma numbered_empty: "numbered []"
  by (simp add: numbered_def rows_of_def)

lemma distinct_by_key:
  assumes "\<And>k. distinct (map g (filter (\<lambda>r. f r = k) xs))"
  shows "distinct (map (\<lambda>r. (f r, g r)) xs)"
  using assms
proof (induction xs)
  case Nil
  then show ?case by simp
next
  case (Cons x xs)
  have a: "\<And>k. distinct (map g (filter (\<lambda>r. f r = k) xs))"
  proof -
    fix k show "distinct (map g (filter (\<lambda>r. f r = k) xs))"
      using Cons.prems [of k] by (simp split: if_splits)
  qed
  have "(f x, g x) \<notin> (\<lambda>r. (f r, g r)) ` set xs"
  proof
    assume "(f x, g x) \<in> (\<lambda>r. (f r, g r)) ` set xs"
    then obtain y where y: "y \<in> set xs" "f y = f x" "g y = g x" by auto
    from Cons.prems [of "f x"] have "g x \<notin> g ` set (filter (\<lambda>r. f r = f x) xs)" by simp
    moreover have "y \<in> set (filter (\<lambda>r. f r = f x) xs)" using y by simp
    ultimately show False using y(3) by (metis imageI)
  qed
  with Cons.IH [OF a] show ?case by simp
qed

lemma numbered_distinct:
  assumes "numbered table"
  shows "distinct (map (\<lambda>r. (sourceId r, revision r)) table)"
proof (rule distinct_by_key)
  fix k
  show "distinct (map revision (filter (\<lambda>r. sourceId r = k) table))"
  proof (cases k)
    case None
    have "filter (\<lambda>r. sourceId r = None) table = []"
      using assms by (auto simp: numbered_def filter_empty_conv)
    then show ?thesis using None by simp
  next
    case (Some s)
    have "map revision (rows_of s table) = map Some [1..int (length (rows_of s table))]"
      using assms by (simp add: numbered_def)
    then show ?thesis using Some
      by (simp add: rows_of_def distinct_map)
  qed
qed

lemma set_map_filter: "set (List.map_filter f xs) = {y. \<exists>x \<in> set xs. f x = Some y}"
  by (induction xs) (auto split: option.splits)

lemma select_max_revision_set:
  "coalesce (select_max_revision table (Some s)) 0 =
     (if {r. \<exists>row \<in> set table. sourceId row = Some s \<and> revision row = Some r} = {} then 0
      else Max {r. \<exists>row \<in> set table. sourceId row = Some s \<and> revision row = Some r})"
proof -
  let ?rs = "List.map_filter revision (filter (\<lambda>r. sql_eq (sourceId r) (Some s)) table)"
  have "set ?rs = {r. \<exists>row \<in> set table. sourceId row = Some s \<and> revision row = Some r}"
    by (auto simp: set_map_filter)
  then have S: "{r. \<exists>row \<in> set table. sourceId row = Some s \<and> revision row = Some r} = set ?rs"
    by simp
  show ?thesis
    unfolding S by (cases "?rs = []") (simp_all add: select_max_revision_def coalesce_def Let_def)
qed

lemma insert_row_Inr:
  assumes "insert_row table new = Inr table'"
  shows "\<exists>s. sourceId new = Some s \<and>
           table' = table @ [new\<lparr>revision := Some
             ((if {r. \<exists>row \<in> set table. sourceId row = Some s \<and> revision row = Some r} = {} then 0
               else Max {r. \<exists>row \<in> set table. sourceId row = Some s \<and> revision row = Some r}) + 1)\<rparr>]"
proof -
  from assms obtain s where s: "sourceId new = Some s"
    by (cases "sourceId new") (auto simp: insert_row_def insert_fn_def split: sum.splits if_splits)
  from assms s have "table' = table @ [new\<lparr>revision := Some (coalesce (select_max_revision table (Some s)) 0 + 1)\<rparr>]"
    by (auto simp: insert_row_def insert_fn_def int4_add_def split: sum.splits if_splits)
  with s show ?thesis
    by (simp only: select_max_revision_set) blast
qed

lemma insert_row_succeeds:
  assumes "numbered table" and "sourceId new = Some s" and "int (length (rows_of s table)) < int4_max"
  shows "insert_row table new = Inr (table @ [new\<lparr>revision := Some (int (length (rows_of s table)) + 1)\<rparr>])"
proof -
  have c: "coalesce (select_max_revision table (Some s)) 0 = int (length (rows_of s table))"
    by (rule select_max_numbered [OF assms(1)])
  have m: "map revision (rows_of s table) = map Some [1..int (length (rows_of s table))]"
    using assms(1) by (simp add: numbered_def)
  have "\<not> (\<exists>r \<in> set table. sourceId r = Some s \<and> revision r = Some (int (length (rows_of s table)) + 1))"
  proof
    assume "\<exists>r \<in> set table. sourceId r = Some s \<and> revision r = Some (int (length (rows_of s table)) + 1)"
    then obtain r where "r \<in> set (rows_of s table)" "revision r = Some (int (length (rows_of s table)) + 1)"
      by (auto simp: rows_of_def)
    then have "Some (int (length (rows_of s table)) + 1) \<in> set (map revision (rows_of s table))"
      by force
    then show False unfolding m by auto
  qed
  then show ?thesis
    using assms(2,3) c
    by (auto simp: insert_row_def insert_fn_def int4_add_def int4_max_def)
qed


lemma insert_all_same_source:
  assumes "numbered table" and "\<forall>n \<in> set news. sourceId n = Some s"
    and "int (length (rows_of s table)) + int (length news) \<le> int4_max"
  shows "insert_all news table =
           table @ map (\<lambda>(i, n). n\<lparr>revision := Some (int i)\<rparr>)
                     (enumerate (Suc (length (rows_of s table))) news)"
  using assms
proof (induction news arbitrary: table)
  case Nil
  then show ?case by (simp add: insert_all_def)
next
  case (Cons new news)
  let ?row = "new\<lparr>revision := Some (int (length (rows_of s table)) + 1)\<rparr>"
  have s: "sourceId new = Some s" using Cons.prems(2) by simp
  have ok: "insert_row table new = Inr (table @ [?row])"
    using Cons.prems(1) s Cons.prems(3) by (intro insert_row_succeeds) auto
  have n': "numbered (table @ [?row])"
    by (rule insert_row_numbered [OF Cons.prems(1) ok])
  have len: "length (rows_of s (table @ [?row])) = Suc (length (rows_of s table))"
    using s by (simp add: rows_of_def)
  have "insert_all news (table @ [?row]) =
          (table @ [?row]) @ map (\<lambda>(i, n). n\<lparr>revision := Some (int i)\<rparr>)
                     (enumerate (Suc (length (rows_of s (table @ [?row])))) news)"
    using Cons.prems(2,3) by (intro Cons.IH [OF n']) (auto simp: len)
  then have "insert_all news (table @ [?row]) =
          (table @ [?row]) @ map (\<lambda>(i, n). n\<lparr>revision := Some (int i)\<rparr>)
                     (enumerate (Suc (Suc (length (rows_of s table)))) news)"
    by (simp only: len)
  moreover have "insert_all (new # news) table = insert_all news (table @ [?row])"
    by (simp add: insert_all_def insert_step_def ok)
  ultimately show ?case
    by (simp add: add.commute)
qed

text \<open>
  Claim C1. An insert that the database accepts adds the row with \<^verbatim>\<open>_revision\<close> set to
  the largest revision among the table's rows of the same source id plus 1, and to 1
  where the source id has no revision yet. Hence in a table filled by inserts (accepted or rejected, for
  any source ids) the revisions of every source id are 1, 2, 3, ... in insertion order and
  no two rows share source id and revision; and inserts for one source id, up to the
  largest 32-bit INTEGER many, are all accepted and numbered 1, 2, 3, ... in their order.
\<close>

theorem revision_numbering:
  "(insert_row table new = Inr table' \<longrightarrow>
      (\<exists>s. sourceId new = Some s \<and>
         table' = table @ [new\<lparr>revision := Some
           ((if {r. \<exists>row \<in> set table. sourceId row = Some s \<and> revision row = Some r} = {} then 0
             else Max {r. \<exists>row \<in> set table. sourceId row = Some s \<and> revision row = Some r}) + 1)\<rparr>])) \<and>
   map revision (rows_of s (insert_all news [])) =
      map Some [1..int (length (rows_of s (insert_all news [])))] \<and>
   distinct (map (\<lambda>r. (sourceId r, revision r)) (insert_all news [])) \<and>
   ((\<forall>n \<in> set news. sourceId n = Some s) \<and> int (length news) \<le> int4_max \<longrightarrow>
      insert_all news [] = map (\<lambda>(i, n). n\<lparr>revision := Some (int i)\<rparr>) (enumerate 1 news))"
proof (intro conjI impI)
  assume "insert_row table new = Inr table'"
  then show "\<exists>s. sourceId new = Some s \<and>
         table' = table @ [new\<lparr>revision := Some
           ((if {r. \<exists>row \<in> set table. sourceId row = Some s \<and> revision row = Some r} = {} then 0
             else Max {r. \<exists>row \<in> set table. sourceId row = Some s \<and> revision row = Some r}) + 1)\<rparr>]"
    by (rule insert_row_Inr)
next
  from insert_all_numbered [OF numbered_empty, of news]
  show "map revision (rows_of s (insert_all news [])) =
      map Some [1..int (length (rows_of s (insert_all news [])))]"
    by (simp add: numbered_def)
next
  show "distinct (map (\<lambda>r. (sourceId r, revision r)) (insert_all news []))"
    by (rule numbered_distinct [OF insert_all_numbered [OF numbered_empty]])
next
  assume a: "(\<forall>n \<in> set news. sourceId n = Some s) \<and> int (length news) \<le> int4_max"
  from a insert_all_same_source [OF numbered_empty, of news s]
  show "insert_all news [] = map (\<lambda>(i, n). n\<lparr>revision := Some (int i)\<rparr>) (enumerate 1 news)"
    by (simp add: rows_of_def)
qed

theorem revision_numbering_witness:
  "insert_row [] \<lparr>sourceId = Some (7::nat), revision = None, payload = ''a''\<rparr> =
     Inr [\<lparr>sourceId = Some 7, revision = Some 1, payload = ''a''\<rparr>] \<and>
   map sourceId [\<lparr>sourceId = Some (7::nat), revision = None, payload = ''a''\<rparr>,
                 \<lparr>sourceId = Some 7, revision = None, payload = ''b''\<rparr>,
                 \<lparr>sourceId = Some 7, revision = Some 9, payload = ''c''\<rparr>] = [Some 7, Some 7, Some 7] \<and>
   int (length [\<lparr>sourceId = Some (7::nat), revision = None, payload = ''a''\<rparr>,
                \<lparr>sourceId = Some 7, revision = None, payload = ''b''\<rparr>,
                \<lparr>sourceId = Some 7, revision = Some 9, payload = ''c''\<rparr>]) \<le> int4_max \<and>
   insert_all [\<lparr>sourceId = Some (7::nat), revision = None, payload = ''a''\<rparr>,
               \<lparr>sourceId = Some 7, revision = None, payload = ''b''\<rparr>,
               \<lparr>sourceId = Some 7, revision = Some 9, payload = ''c''\<rparr>] [] =
     [\<lparr>sourceId = Some 7, revision = Some 1, payload = ''a''\<rparr>,
      \<lparr>sourceId = Some 7, revision = Some 2, payload = ''b''\<rparr>,
      \<lparr>sourceId = Some 7, revision = Some 3, payload = ''c''\<rparr>]"
  using revision_numbering
    [of "[]" "\<lparr>sourceId = Some (7::nat), revision = None, payload = ''a''\<rparr>"
        "[\<lparr>sourceId = Some 7, revision = Some 1, payload = ''a''\<rparr>]" 7
        "[\<lparr>sourceId = Some (7::nat), revision = None, payload = ''a''\<rparr>,
          \<lparr>sourceId = Some 7, revision = None, payload = ''b''\<rparr>,
          \<lparr>sourceId = Some 7, revision = Some 9, payload = ''c''\<rparr>]"]
  by (simp add: insert_row_def insert_fn_def select_max_revision_def coalesce_def
      int4_add_def int4_max_def enumerate_eq_zip upt_rec)

section \<open>Properties of the lodash functions\<close>

lemma get_Nil: "get [] k = (case map_of Object_prototype k of Some v \<Rightarrow> v | None \<Rightarrow> JUndefined)"
  by (simp add: get_def)

lemma has_Nil: "has [] k = (case map_of Object_prototype k of Some v \<Rightarrow> True | None \<Rightarrow> False)"
  by (simp add: has_def)

lemma Object_prototype_keys:
  "fst ` set Object_prototype =
     {''constructor'', ''toString'', ''toLocaleString'', ''valueOf'', ''hasOwnProperty'',
      ''isPrototypeOf'', ''propertyIsEnumerable'', ''__defineGetter__'', ''__defineSetter__'',
      ''__lookupGetter__'', ''__lookupSetter__'', ''__proto__''}"
  by (simp add: Object_prototype_def)

lemma get_Nil_plain: "k \<notin> fst ` set Object_prototype \<Longrightarrow> get [] k = JUndefined"
proof -
  assume "k \<notin> fst ` set Object_prototype"
  then have "map_of Object_prototype k = None"
    by (simp add: map_of_eq_None_iff)
  then show ?thesis
    by (auto simp: get_def)
qed

lemma has_Nil_plain: "k \<notin> fst ` set Object_prototype \<Longrightarrow> \<not> has [] k"
  by (simp add: has_def map_of_eq_None_iff [THEN iffD2])

lemma get_Cons [simp]:
  "get ((k, v) # ob) k' = (if k' = k \<and> k \<noteq> ''__proto__'' then v else get ob k')"
  by (simp add: get_def)

lemma has_Cons [simp]: "has ((k, v) # ob) k' \<longleftrightarrow> k' = k \<or> has ob k'"
  by (simp add: has_def)

lemma get_update:
  "get (AList.update k v ob) k' = (if k' = k \<and> k \<noteq> ''__proto__'' then v else get ob k')"
  by (simp add: get_def update_conv')

lemma has_update: "has (AList.update k v ob) k' \<longleftrightarrow> k' = k \<or> has ob k'"
  by (simp add: has_def update_conv')

lemma has_keys: "has ob k \<longleftrightarrow> k \<in> fst ` set ob \<or> has [] k"
proof (cases "map_of ob k")
  case None
  then have "k \<notin> fst ` set ob" by (simp add: map_of_eq_None_iff)
  with None show ?thesis by (simp add: has_def)
next
  case (Some v)
  then have "k \<in> fst ` set ob" by (metis map_of_eq_None_iff option.distinct(1))
  with Some show ?thesis by (simp add: has_def)
qed

lemma get_inherited: "k \<notin> fst ` set ob \<Longrightarrow> get ob k = get [] k"
  by (simp add: get_def map_of_eq_None_iff [THEN iffD2])

lemma get_proto: "get ob ''__proto__'' = JObj []"
  by (simp add: get_def Object_prototype_def)

lemma has_proto: "has ob ''__proto__''"
  by (simp add: has_def Object_prototype_def split: option.split)

lemma get_not_has: "\<not> has ob k \<Longrightarrow> get ob k = JUndefined"
  by (cases "k = ''__proto__''") (auto simp: has_proto has_def get_def split: option.splits)

lemma get_assign: "get (assign k v ob) k' = (if k' = k \<and> k \<noteq> ''__proto__'' then v else get ob k')"
  by (simp add: assign_def get_update)

lemma has_assign: "has (assign k v ob) k' \<longleftrightarrow> (k' = k \<and> k \<noteq> ''__proto__'') \<or> has ob k'"
  by (auto simp: assign_def has_update has_proto)

lemma keys_assign:
  "fst ` set (assign k v ob) = (if k = ''__proto__'' then fst ` set ob else insert k (fst ` set ob))"
  by (simp add: assign_def dom_update [simplified dom_map_of_conv_image_fst])

lemma get_pickByArray:
  "get (pickByArray ob ks r) k = (if k \<in> set ks \<and> has ob k then get ob k else get r k)"
proof (induction ks arbitrary: r)
  case Nil
  then show ?case by simp
next
  case (Cons key ks)
  show ?case
  proof (cases "k = ''__proto__''")
    case True
    then show ?thesis by (simp add: get_proto)
  next
    case False
    then show ?thesis by (auto simp: Cons.IH get_assign)
  qed
qed

lemma has_pickByArray:
  "has (pickByArray ob ks r) k \<longleftrightarrow> (k \<in> set ks \<and> has ob k) \<or> has r k"
proof (induction ks arbitrary: r)
  case Nil
  then show ?case by simp
next
  case (Cons key ks)
  show ?case
  proof (cases "k = ''__proto__''")
    case True
    then show ?thesis by (simp add: has_proto)
  next
    case False
    then show ?thesis by (simp add: Cons.IH has_assign) blast
  qed
qed

lemma keys_pickByArray:
  "fst ` set (pickByArray ob ks r) = fst ` set r \<union> {k \<in> set ks. has ob k \<and> k \<noteq> ''__proto__''}"
proof (induction ks arbitrary: r)
  case Nil
  then show ?case by simp
next
  case (Cons key ks)
  show ?case
    by (cases "key = ''__proto__''"; cases "has ob key") (simp_all add: Cons.IH keys_assign, blast+)
qed

lemma get_Nil_not_has: "\<not> has ob k \<Longrightarrow> get [] k = JUndefined"
  by (cases "k = ''__proto__''") (auto simp: has_proto has_def get_def split: option.splits)

lemma get_pick: "get (pick ob ks) k = (if k \<in> set ks then get ob k else get [] k)"
proof (cases "has ob k")
  case True
  then show ?thesis by (simp add: pick_def get_pickByArray)
next
  case False
  from get_not_has [OF False] get_Nil_not_has [OF False] False
  show ?thesis by (simp add: pick_def get_pickByArray)
qed

lemma has_pick: "has (pick ob ks) k \<longleftrightarrow> (k \<in> set ks \<and> has ob k) \<or> has [] k"
  by (simp add: pick_def has_pickByArray)

section \<open>Properties of the update hook\<close>

lemma set_intersection_loop:
  "set (intersection_loop r xs ys) = set r \<union> (set xs \<inter> set ys)"
  by (induction xs arbitrary: r) auto

lemma distinct_intersection_loop:
  "distinct r \<Longrightarrow> distinct (intersection_loop r xs ys)"
  by (induction xs arbitrary: r) auto

lemma arrayLike_changed: "arrayLike (changed inst) = map JStr (changed_names inst)"
  by (simp add: changed_def arrayLike_def)

lemma set_intersection_changed:
  "set (intersection (changed inst) (JArr (map JStr tr))) = JStr ` (set (changed_names inst) \<inter> set tr)"
proof -
  have "arrayLike (JArr (map JStr tr)) = map JStr tr"
    by (simp add: arrayLike_def)
  then have "set (intersection (changed inst) (JArr (map JStr tr)))
      = JStr ` set (changed_names inst) \<inter> JStr ` set tr"
    by (simp add: intersection_def set_intersection_loop arrayLike_changed)
  also have "\<dots> = JStr ` (set (changed_names inst) \<inter> set tr)"
    by (rule image_Int [symmetric]) (simp add: inj_on_def)
  finally show ?thesis .
qed

lemma afterUpdate_writes:
  "afterUpdate options now inst =
     (if set (changed_names inst) \<inter> set (track options) \<noteq> {} then [writeHistory options now inst] else [])"
proof -
  have "length (intersection (changed inst) (JArr (map JStr (track options)))) > 0 \<longleftrightarrow>
        set (intersection (changed inst) (JArr (map JStr (track options)))) \<noteq> {}"
    by simp
  also have "\<dots> \<longleftrightarrow> set (changed_names inst) \<inter> set (track options) \<noteq> {}"
    by (simp add: set_intersection_changed)
  finally show ?thesis
    by (simp add: afterUpdate_def)
qed

text \<open>
  Claim C3. After an update the hook has the history writer called, with exactly one
  record, if and only if a name the instance reports as changed is a tracked field; where
  no tracked field changed it has nothing written, and it raises no error either way (it
  is a total function returning the records to create).
\<close>

theorem hook_writes_iff_tracked_change:
  "(length (afterUpdate options now inst) = 1 \<longleftrightarrow> set (changed_names inst) \<inter> set (track options) \<noteq> {}) \<and>
   (afterUpdate options now inst = [writeHistory options now inst]
      \<longleftrightarrow> set (changed_names inst) \<inter> set (track options) \<noteq> {}) \<and>
   (afterUpdate options now inst = [] \<longleftrightarrow> set (changed_names inst) \<inter> set (track options) = {})"
  by (simp add: afterUpdate_writes)

theorem hook_writes_iff_tracked_change_witness:
  "afterUpdate [(''track'', JArr [JStr ''x'', JStr ''y''])] 0
     \<lparr>dataValues = [(''id'', JNum 1), (''z'', JNum 2)],
      previousDataValues = [(''id'', JNum 1), (''z'', JNum 1)],
      changed_names = [''z'']\<rparr> = [] \<and>
   length (afterUpdate [(''track'', JArr [JStr ''x'', JStr ''y''])] 0
     \<lparr>dataValues = [(''id'', JNum 1), (''x'', JNum 2)],
      previousDataValues = [(''id'', JNum 1), (''x'', JNum 1)],
      changed_names = [''x'']\<rparr>) = 1"
  using
    hook_writes_iff_tracked_change
      [of "[(''track'', JArr [JStr ''x'', JStr ''y''])]" 0
          "\<lparr>dataValues = [(''id'', JNum 1), (''z'', JNum 2)],
            previousDataValues = [(''id'', JNum 1), (''z'', JNum 1)],
            changed_names = [''z'']\<rparr>"]
    hook_writes_iff_tracked_change
      [of "[(''track'', JArr [JStr ''x'', JStr ''y''])]" 0
          "\<lparr>dataValues = [(''id'', JNum 1), (''x'', JNum 2)],
            previousDataValues = [(''id'', JNum 1), (''x'', JNum 1)],
            changed_names = [''x'']\<rparr>"]
  by (simp add: track_def strings_of_def arrayLike_def)

section \<open>Properties of the history record\<close>

text \<open>
  Claim C4: for an update that triggers a history write, the record's \<^verbatim>\<open>_changes\<close> is
  the list of names the instance reports as changed, as the comment on that column says
  (\<^verbatim>\<open>the fields that were changed to trigger the history log\<close>). \<^verbatim>\<open>writeHistory\<close>
  overlays the three meta values with \<^verbatim>\<open>_.merge\<close>, which does not replace an array by
  an array but merges the two element by element. With a tracked field named
  \<^verbatim>\<open>_changes\<close> whose previous value is the array \<^verbatim>\<open>['a', 'b']\<close>, and an update that
  reports the one changed name \<^verbatim>\<open>_changes\<close>, the hook writes a record whose
  \<^verbatim>\<open>_changes\<close> is \<^verbatim>\<open>['_changes', 'b']\<close>: the second element is left over from the
  previous value, and the record's \<^verbatim>\<open>_changes\<close> is not the reported list.
\<close>

theorem writeHistory_stale_changes:
  "afterUpdate
     [(''track'', JArr [JStr ''_changes'']), (''idAttr'', JStr ''id''),
      (''modelName'', JStr ''OrderHistory''), (''tableName'', JStr ''order_history'')] 0
     \<lparr>dataValues = [(''id'', JNum 1), (''_changes'', JArr [JStr ''c''])],
      previousDataValues = [(''id'', JNum 1), (''_changes'', JArr [JStr ''a'', JStr ''b''])],
      changed_names = [''_changes'']\<rparr>
   = [[(''_changes'', JArr [JStr ''_changes'', JStr ''b'']), (''_sourceId'', JNum 1), (''_date'', JDate 0)]] \<and>
   get [(''_changes'', JArr [JStr ''_changes'', JStr ''b'']), (''_sourceId'', JNum 1), (''_date'', JDate 0)]
     ''_changes''
   \<noteq> changed
       \<lparr>dataValues = [(''id'', JNum 1), (''_changes'', JArr [JStr ''c''])],
        previousDataValues = [(''id'', JNum 1), (''_changes'', JArr [JStr ''a'', JStr ''b''])],
        changed_names = [''_changes'']\<rparr>"
  by (simp add: afterUpdate_def writeHistory_def merge_def intersection_def changed_def arrayLike_def
      track_def idAttr_def strings_of_def string_of_def pick_def assign_def
      get_Nil_plain Object_prototype_keys)

text \<open>
  The same merge on plain values: a tracked field that is not named like a meta value
  keeps its previous value in the record, and a name that \<^verbatim>\<open>track\<close> lists and the
  previous values inherit is copied into the record with the inherited value.
\<close>

lemma writeHistory_inherited_field:
  "writeHistory [(''track'', JArr [JStr ''total'', JStr ''constructor'']), (''idAttr'', JStr ''id'')] 0
     \<lparr>dataValues = [(''id'', JNum 2), (''total'', JNum 7)],
      previousDataValues = [(''id'', JNum 2), (''total'', JNum 6)],
      changed_names = [''total'']\<rparr>
   = [(''total'', JNum 6), (''constructor'', JFun ''Object'' 1), (''_sourceId'', JNum 2),
      (''_date'', JDate 0), (''_changes'', JArr [JStr ''total''])]"
  by (simp add: writeHistory_def merge_def changed_def arrayLike_def track_def idAttr_def
      strings_of_def string_of_def pick_def assign_def has_def get_def Object_prototype_def)

section \<open>Properties of the history model\<close>

text \<open>
  Claim C9: a tracked attribute named like a meta field has its definition replaced by
  the meta field's definition, and in the record \<^verbatim>\<open>_sourceId\<close>, \<^verbatim>\<open>_date\<close> and
  \<^verbatim>\<open>_changes\<close> replace a tracked previous value of that name: the code merges the meta
  fields last for them to win. The merge is \<^verbatim>\<open>_.merge\<close>, which merges a plain object
  into a plain object and an array into an array instead of replacing them. A source
  model with an attribute \<^verbatim>\<open>_revision\<close> of its own,
  \<^verbatim>\<open>{type: STRING, allowNull: false}\<close>, gets a history attribute \<^verbatim>\<open>_revision\<close> that
  has the meta field's \<^verbatim>\<open>type\<close> and \<^verbatim>\<open>unique\<close> and keeps \<^verbatim>\<open>allowNull: false\<close>,
  which the meta definition does not have; and a tracked previous \<^verbatim>\<open>_changes\<close> of two
  elements keeps its second element under a changed list of one name.
\<close>

theorem meta_collision_merged:
  "createHistoryModel
     \<lparr>name = ''Order'', tableName = ''orders'',
      attributes =
        [(''id'', [(''type'', INTEGER), (''primaryKey'', JBool True), (''autoIncrement'', JBool True)]),
         (''_revision'', [(''type'', STRING), (''allowNull'', JBool False)])]\<rparr>
     [(''track'', JArr [JStr ''id'', JStr ''_revision'']), (''idAttr'', JStr ''id''),
      (''modelName'', JStr ''OrderHistory''), (''tableName'', JStr ''orders_history'')]
   = Inr \<lparr>hm_modelName = ''OrderHistory'',
          hm_attributes =
            [(''id'', JObj [(''type'', INTEGER), (''primaryKey'', JBool True)]),
             (''_revision'', JObj [(''type'', INTEGER), (''allowNull'', JBool False),
                                  (''unique'', JStr ''naturalId'')]),
             (''_id'', JObj [(''type'', INTEGER), (''primaryKey'', JBool True),
                            (''autoIncrement'', JBool True)]),
             (''_sourceId'', JObj [(''type'', INTEGER), (''allowNull'', JBool False),
                                  (''unique'', JStr ''naturalId'')]),
             (''_user'', STRING), (''_date'', DATE), (''_changes'', ARRAY_STRING)],
          hm_tableName = ''orders_history'', hm_timestamps = False,
          hm_indexes = [[''_sourceId'']], hm_belongsTo = []\<rparr> \<and>
   JObj [(''type'', INTEGER), (''allowNull'', JBool False), (''unique'', JStr ''naturalId'')]
     \<noteq> get (metaAttrs
              (JObj [(''type'', INTEGER), (''primaryKey'', JBool True), (''autoIncrement'', JBool True)]))
         ''_revision'' \<and>
   get (writeHistory
          [(''track'', JArr [JStr ''_changes'', JStr ''total'']), (''idAttr'', JStr ''id'')] 0
          \<lparr>dataValues = [(''id'', JNum 2), (''total'', JNum 7), (''_changes'', JArr [JStr ''x'', JStr ''y''])],
           previousDataValues = [(''id'', JNum 2), (''total'', JNum 6),
                                 (''_changes'', JArr [JStr ''x'', JStr ''y''])],
           changed_names = [''total'']\<rparr>) ''_changes''
     = JArr [JStr ''total'', JStr ''y'']"
  by (simp add: createHistoryModel_def sequelize_define_def normalizeAttribute_def truthy_def
      attributes_object_def type_of_def history_attrs_def tracked_attrs_def merge_def metaAttrs_def
      mapValues_def omit_def pick_def assign_def track_def idAttr_def modelName_def
      options_tableName_def strings_of_def string_of_def arrayLike_def writeHistory_def changed_def
      INTEGER_def STRING_def DATE_def ARRAY_STRING_def get_Nil_plain Object_prototype_keys)

section \<open>Attaching\<close>

lemma truthy_Object_prototype: "map_of Object_prototype k = Some v \<Longrightarrow> truthy v"
  by (auto simp: Object_prototype_def truthy_def split: if_splits)

lemma map_of_attributes_object:
  "map_of (attributes_object m) k = map_option JObj (map_of (attributes m) k)"
  by (simp add: attributes_object_def map_of_map)

text \<open>The guard of \<^verbatim>\<open>createHistoryModel\<close> lets pass every name that
  \<^verbatim>\<open>model.attributes\<close> has or inherits, and throws for every other name.\<close>

lemma idAttr_guard:
  "truthy (get (attributes_object m) k) \<longleftrightarrow> k \<in> fst ` set (attributes m) \<or> has [] k"
proof (cases "map_of Object_prototype k")
  case None
  then have p: "k \<noteq> ''__proto__''"
    by (auto simp: Object_prototype_def)
  show ?thesis
  proof (cases "map_of (attributes m) k")
    case n: None
    then have "k \<notin> fst ` set (attributes m)"
      by (simp add: map_of_eq_None_iff)
    with None n p show ?thesis
      by (simp add: get_def has_def map_of_attributes_object truthy_def)
  next
    case (Some a)
    then have "k \<in> fst ` set (attributes m)"
      by (metis map_of_eq_None_iff option.distinct(1))
    with Some p show ?thesis
      by (simp add: get_def map_of_attributes_object truthy_def)
  qed
next
  case (Some v)
  then have t: "truthy v"
    by (rule truthy_Object_prototype)
  have h: "has [] k"
    using Some by (simp add: has_def)
  have "truthy (get (attributes_object m) k)"
  proof (cases "k = ''__proto__''")
    case True
    then show ?thesis by (simp add: get_proto truthy_def)
  next
    case False
    with Some t show ?thesis
      by (cases "map_of (attributes m) k")
         (simp_all add: get_def map_of_attributes_object truthy_def)
  qed
  with h show ?thesis by simp
qed

lemma createHistoryModel_invalid_idAttr:
  "createHistoryModel m options =
     Inl (Error (''Invalid id attribute for model '' @ name m @ '': '' @ idAttr options))
   \<longleftrightarrow> idAttr options \<notin> fst ` set (attributes m) \<and> \<not> has [] (idAttr options)"
proof -
  have "sequelize_define n a t \<noteq> Inl (Error (''Invalid id attribute for model '' @ x))" for n a t x
    by (simp add: sequelize_define_def split: list.split prod.split)
  then show ?thesis
    using idAttr_guard [of m "idAttr options"]
    by (simp add: createHistoryModel_def Let_def)
qed

text \<open>
  Claim C2: where \<^verbatim>\<open>idAttr\<close> does not name an attribute of the source model, attaching
  fails with the configuration error and no history model is created; this is what the
  guard's message, \<^verbatim>\<open>Invalid id attribute for model\<close>, announces. The guard tests the
  value of \<^verbatim>\<open>model.attributes[options.idAttr]\<close>, which for a name such as
  \<^verbatim>\<open>constructor\<close> is the function that every object inherits: the guard lets the name
  pass and the meta attribute \<^verbatim>\<open>_sourceId\<close> gets the type \<^verbatim>\<open>undefined\<close>. For a source
  model with the attributes \<^verbatim>\<open>id\<close> and \<^verbatim>\<open>_sourceId\<close>, both tracked by default, the
  merge keeps the type of the tracked \<^verbatim>\<open>_sourceId\<close>, \<^verbatim>\<open>sequelize.define\<close> accepts
  the attributes, and attaching with \<^verbatim>\<open>idAttr: 'constructor'\<close>, which names no
  attribute, succeeds with a history model.
\<close>

theorem inherited_idAttr_attaches:
  "''constructor'' \<notin> set (map fst (attributes
       \<lparr>name = ''Order'', tableName = ''orders'',
        attributes = [(''id'', [(''type'', INTEGER), (''primaryKey'', JBool True)]),
                      (''_sourceId'', [(''type'', INTEGER)])]\<rparr>)) \<and>
   attach (\<lambda>s. None) [(''idAttr'', JStr ''constructor'')]
     \<lparr>name = ''Order'', tableName = ''orders'',
      attributes = [(''id'', [(''type'', INTEGER), (''primaryKey'', JBool True)]),
                    (''_sourceId'', [(''type'', INTEGER)])]\<rparr>
   = (Inr \<lparr>historyModel =
            \<lparr>hm_modelName = ''OrderHistory'',
             hm_attributes =
               [(''id'', JObj [(''type'', INTEGER), (''primaryKey'', JBool True)]),
                (''_sourceId'', JObj [(''type'', INTEGER), (''allowNull'', JBool False),
                                     (''unique'', JStr ''naturalId'')]),
                (''_id'', JObj [(''type'', INTEGER), (''primaryKey'', JBool True),
                               (''autoIncrement'', JBool True)]),
                (''_revision'', JObj [(''type'', INTEGER), (''unique'', JStr ''naturalId'')]),
                (''_user'', STRING), (''_date'', DATE), (''_changes'', ARRAY_STRING)],
             hm_tableName = ''orders_history'', hm_timestamps = False,
             hm_indexes = [[''_sourceId'']],
             hm_belongsTo = [\<lparr>target = ''Order'', as_alias = ''source'', foreignKey = ''_sourceId'',
                              onDelete = ''cascade''\<rparr>]\<rparr>,
          hook_options =
            [(''idAttr'', JStr ''constructor''), (''track'', JArr [JStr ''id'', JStr ''_sourceId'']),
             (''modelName'', JStr ''OrderHistory''), (''tableName'', JStr ''orders_history'')]\<rparr>,
      [(''idAttr'', JStr ''constructor''), (''track'', JArr [JStr ''id'', JStr ''_sourceId'']),
       (''modelName'', JStr ''OrderHistory''), (''tableName'', JStr ''orders_history'')])"
  by (simp add: attach_def joi_validate_def optionsSchema_def joi_value_def joi_string_def
      joi_single_def joi_convert_array_def addHooks_def associate_def
      createHistoryModel_def sequelize_define_def normalizeAttribute_def truthy_def
      attributes_object_def type_of_def history_attrs_def tracked_attrs_def merge_def metaAttrs_def
      mapValues_def omit_def pick_def assign_def track_def idAttr_def modelName_def
      options_tableName_def strings_of_def string_of_def arrayLike_def
      INTEGER_def STRING_def DATE_def ARRAY_STRING_def has_def get_def Object_prototype_def)

text \<open>
  Without a tracked attribute \<^verbatim>\<open>_sourceId\<close> the same call fails, in
  \<^verbatim>\<open>sequelize.define\<close> and with its error; and a name that nothing defines is
  rejected by the guard.
\<close>

lemma inherited_idAttr_unrecognized_type:
  "attach (\<lambda>s. None) [(''idAttr'', JStr ''constructor'')]
     \<lparr>name = ''Order'', tableName = ''orders'',
      attributes = [(''id'', [(''type'', INTEGER), (''primaryKey'', JBool True)]),
                    (''total'', [(''type'', INTEGER)])]\<rparr>
   = (Inl (Error ''Unrecognized data type for field _sourceId''),
      [(''idAttr'', JStr ''constructor''), (''track'', JArr [JStr ''id'', JStr ''total'']),
       (''modelName'', JStr ''OrderHistory''), (''tableName'', JStr ''orders_history'')]) \<and>
   attach (\<lambda>s. None) [(''idAttr'', JStr ''key'')]
     \<lparr>name = ''Order'', tableName = ''orders'',
      attributes = [(''id'', [(''type'', INTEGER), (''primaryKey'', JBool True)]),
                    (''total'', [(''type'', INTEGER)])]\<rparr>
   = (Inl (Error ''Invalid id attribute for model Order: key''),
      [(''idAttr'', JStr ''key''), (''track'', JArr [JStr ''id'', JStr ''total'']),
       (''modelName'', JStr ''OrderHistory''), (''tableName'', JStr ''orders_history'')])"
  by (simp add: attach_def joi_validate_def optionsSchema_def joi_value_def joi_string_def
      joi_single_def joi_convert_array_def addHooks_def associate_def
      createHistoryModel_def sequelize_define_def normalizeAttribute_def truthy_def
      attributes_object_def type_of_def history_attrs_def tracked_attrs_def merge_def metaAttrs_def
      mapValues_def omit_def pick_def assign_def track_def idAttr_def modelName_def
      options_tableName_def strings_of_def string_of_def arrayLike_def
      INTEGER_def STRING_def DATE_def ARRAY_STRING_def has_def get_def Object_prototype_def)

section \<open>Properties of option validation\<close>

lemma joi_string_Inr: "joi_string key v = Inr w \<longleftrightarrow> w = v \<and> (\<exists>s. v = JStr s \<and> s \<noteq> [])"
  by (cases v) (auto simp: joi_string_def)

lemma joi_string_Inl: "joi_string key v = Inl e \<Longrightarrow> e = ValidationError key"
  by (cases v) (auto simp: joi_string_def split: if_splits)

lemma joi_items_Inr:
  "joi_items key vs = Inr ws \<longleftrightarrow> ws = vs \<and> (\<forall>v \<in> set vs. \<exists>s. v = JStr s \<and> s \<noteq> [])"
proof (induction vs arbitrary: ws)
  case Nil
  then show ?case by auto
next
  case (Cons v vs)
  show ?case
  proof (cases "joi_string key v")
    case (Inl e)
    then have "\<not> (\<exists>s. v = JStr s \<and> s \<noteq> [])"
      using joi_string_Inr [of key v v] by auto
    then show ?thesis using Inl by auto
  next
    case (Inr w)
    then have w: "w = v" "\<exists>s. v = JStr s \<and> s \<noteq> []"
      using joi_string_Inr [of key v w] by auto
    show ?thesis
      using Inr w Cons.IH by (cases "joi_items key vs") auto
  qed
qed

lemma joi_items_Inl: "joi_items key vs = Inl e \<Longrightarrow> e = ValidationError key"
  by (induction vs) (auto split: sum.splits dest: joi_string_Inl)

lemma joi_items_fails:
  assumes "x \<in> set vs" and "\<forall>s. x \<noteq> JStr s"
  shows "joi_items key vs = Inl (ValidationError key)"
proof (cases "joi_items key vs")
  case (Inl e)
  then show ?thesis by (simp add: joi_items_Inl)
next
  case (Inr ws)
  then show ?thesis using assms by (auto simp: joi_items_Inr)
qed

lemma joi_keys_optionsSchema:
  "joi_keys json_array (optionsSchema m) object =
     (case joi_value json_array ''track'' (Joi_array_of_string_single (map fst (attributes m)))
             (get object ''track'') of
        Inl e \<Rightarrow> Inl e
      | Inr t \<Rightarrow>
     (case joi_value json_array ''idAttr'' (Joi_string ''id'') (get object ''idAttr'') of
        Inl e \<Rightarrow> Inl e
      | Inr i \<Rightarrow>
     (case joi_value json_array ''modelName'' (Joi_string (name m @ ''History'')) (get object ''modelName'') of
        Inl e \<Rightarrow> Inl e
      | Inr mn \<Rightarrow>
     (case joi_value json_array ''tableName'' (Joi_string (tableName m @ ''_history''))
             (get object ''tableName'') of
        Inl e \<Rightarrow> Inl e
      | Inr tn \<Rightarrow>
          Inr (AList.update ''tableName'' tn (AList.update ''modelName'' mn
                (AList.update ''idAttr'' i (AList.update ''track'' t object))))))))"
  by (simp add: optionsSchema_def get_update split: sum.splits)

lemma joi_value_string:
  "joi_value json_array key (Joi_string d) v = Inr w \<longleftrightarrow>
     (v = JUndefined \<and> w = JStr d) \<or> (w = v \<and> (\<exists>s. v = JStr s \<and> s \<noteq> []))"
  by (auto simp: joi_value_def joi_string_Inr)

lemma joi_value_array:
  "joi_value json_array key (Joi_array_of_string_single d) v = Inr w \<longleftrightarrow>
     (v = JUndefined \<and> w = JArr (map JStr d)) \<or>
     (v \<noteq> JUndefined \<and> w = JArr (joi_single (joi_convert_array json_array v)) \<and>
      (\<forall>x \<in> set (joi_single (joi_convert_array json_array v)). \<exists>s. x = JStr s \<and> s \<noteq> []))"
proof (cases "v = JUndefined")
  case True
  then show ?thesis by (auto simp: joi_value_def)
next
  case False
  let ?vs = "joi_single (joi_convert_array json_array v)"
  have "joi_value json_array key (Joi_array_of_string_single d) v = Inr w \<longleftrightarrow>
        (\<exists>ws. joi_items key ?vs = Inr ws \<and> w = JArr ws)"
    using False by (cases "joi_items key ?vs") (auto simp: joi_value_def)
  also have "\<dots> \<longleftrightarrow> w = JArr ?vs \<and> (\<forall>x \<in> set ?vs. \<exists>s. x = JStr s \<and> s \<noteq> [])"
    by (auto simp: joi_items_Inr)
  finally show ?thesis using False by auto
qed

lemma joi_validate_Inr:
  assumes "joi_validate json_array object (optionsSchema m) = Inr validated"
  shows "joi_value json_array ''track'' (Joi_array_of_string_single (map fst (attributes m)))
           (get object ''track'') = Inr (get validated ''track'')"
    and "joi_value json_array ''idAttr'' (Joi_string ''id'') (get object ''idAttr'')
           = Inr (get validated ''idAttr'')"
    and "joi_value json_array ''modelName'' (Joi_string (name m @ ''History'')) (get object ''modelName'')
           = Inr (get validated ''modelName'')"
    and "joi_value json_array ''tableName'' (Joi_string (tableName m @ ''_history''))
           (get object ''tableName'') = Inr (get validated ''tableName'')"
  using assms
  by (auto simp: joi_validate_def joi_keys_optionsSchema get_update split: sum.splits list.splits)

lemma strings_of_strings:
  assumes "\<forall>x \<in> set a. \<exists>s. x = JStr s \<and> s \<noteq> []"
  shows "map JStr (strings_of (JArr a)) = a"
  using assms by (induction a) (auto simp: strings_of_def arrayLike_def)

lemma strings_of_map: "strings_of (JArr (map (JStr \<circ> f) xs)) = map f xs"
  by (induction xs) (auto simp: strings_of_def arrayLike_def)

text \<open>The forms of the plugin's call: an array of names, an options object, or names as
  arguments. A call without arguments is the last form with no name, so that nothing is
  tracked.\<close>

lemma plugin_options_forms:
  "plugin_options [JArr a] = [(''track'', JArr a)] \<and>
   plugin_options [JObj ob] = ob \<and>
   plugin_options [JStr s, JStr t] = [(''track'', JArr [JStr s, JStr t])] \<and>
   plugin_options [] = [(''track'', JArr [])]"
  by (simp add: plugin_options_def isArray_def)

lemma plugin_without_arguments:
  "joi_validate json_array (plugin_options []) (optionsSchema m) =
     Inr [(''track'', JArr []), (''idAttr'', JStr ''id''),
          (''modelName'', JStr (name m @ ''History'')), (''tableName'', JStr (tableName m @ ''_history''))]"
  by (simp add: plugin_options_def isArray_def joi_validate_def optionsSchema_def joi_value_def
      joi_single_def joi_convert_array_def get_Nil_plain Object_prototype_keys)

text \<open>
  Claim C5, as stated: the resolved \<^verbatim>\<open>track\<close> is the caller's \<^verbatim>\<open>track\<close> when that is
  supplied. A caller may supply a single name, which the rule's \<^verbatim>\<open>single()\<close> wraps
  into an array: the resolved value is then not the supplied one.
\<close>

theorem options_track_counterexample:
  "joi_validate (\<lambda>s. None) [(''track'', JStr ''total'')]
     (optionsSchema \<lparr>name = ''Order'', tableName = ''orders'',
        attributes = [(''id'', [(''type'', INTEGER)]), (''total'', [(''type'', INTEGER)])]\<rparr>)
     = Inr [(''track'', JArr [JStr ''total'']), (''idAttr'', JStr ''id''),
            (''modelName'', JStr ''OrderHistory''), (''tableName'', JStr ''orders_history'')] \<and>
   get [(''track'', JArr [JStr ''total'']), (''idAttr'', JStr ''id''),
        (''modelName'', JStr ''OrderHistory''), (''tableName'', JStr ''orders_history'')] ''track''
     \<noteq> get [(''track'', JStr ''total'')] ''track''"
  by (simp add: joi_validate_def optionsSchema_def joi_value_def joi_string_def joi_single_def
      joi_convert_array_def get_Nil_plain Object_prototype_keys)

text \<open>
  Claim C5, amended. Where validation of the options object succeeds, \<^verbatim>\<open>track\<close> is all
  of the model's attribute names when none is supplied; the supplied \<^verbatim>\<open>track\<close> when that
  is an array, and otherwise the supplied value wrapped into an array of one item, after
  a supplied string that parses as a JSON array has been replaced by that array; in
  every case an array of strings. \<^verbatim>\<open>idAttr\<close>, \<^verbatim>\<open>modelName\<close> and \<^verbatim>\<open>tableName\<close> are the
  supplied values, and \<^verbatim>\<open>id\<close>, the model's name followed by \<^verbatim>\<open>History\<close> and the
  model's table name followed by \<^verbatim>\<open>_history\<close> where not supplied. Validation fails
  with a validation error at \<^verbatim>\<open>track\<close> when an entry of a supplied array is not a string;
  it succeeds when the object has no other keys than these four, a supplied \<^verbatim>\<open>track\<close>
  is an array of strings that are not empty, and the other supplied values are strings
  that are not empty.
\<close>

theorem options_resolution:
  "(joi_validate json_array object (optionsSchema m) = Inr validated \<longrightarrow>
      get validated ''track'' =
        (if get object ''track'' = JUndefined then JArr (map JStr (map fst (attributes m)))
         else JArr (joi_single (joi_convert_array json_array (get object ''track'')))) \<and>
      (isArray (get object ''track'') \<longrightarrow> get validated ''track'' = get object ''track'') \<and>
      get validated ''track'' = JArr (map JStr (track validated)) \<and>
      get validated ''idAttr'' =
        (if get object ''idAttr'' = JUndefined then JStr ''id'' else get object ''idAttr'') \<and>
      get validated ''modelName'' =
        (if get object ''modelName'' = JUndefined then JStr (name m @ ''History'')
         else get object ''modelName'') \<and>
      get validated ''tableName'' =
        (if get object ''tableName'' = JUndefined then JStr (tableName m @ ''_history'')
         else get object ''tableName'')) \<and>
   (get object ''track'' = JArr a \<and> x \<in> set a \<and> (\<forall>s. x \<noteq> JStr s) \<longrightarrow>
      joi_validate json_array object (optionsSchema m) = Inl (ValidationError ''track'')) \<and>
   (fst ` set object \<subseteq> {''track'', ''idAttr'', ''modelName'', ''tableName''} \<and>
    (get object ''track'' = JUndefined \<or> (\<exists>ss. get object ''track'' = JArr (map JStr ss) \<and> [] \<notin> set ss)) \<and>
    (get object ''idAttr'' = JUndefined \<or> (\<exists>s. get object ''idAttr'' = JStr s \<and> s \<noteq> [])) \<and>
    (get object ''modelName'' = JUndefined \<or> (\<exists>s. get object ''modelName'' = JStr s \<and> s \<noteq> [])) \<and>
    (get object ''tableName'' = JUndefined \<or> (\<exists>s. get object ''tableName'' = JStr s \<and> s \<noteq> [])) \<longrightarrow>
      (\<exists>validated. joi_validate json_array object (optionsSchema m) = Inr validated))"
proof (intro conjI impI)
  assume v: "joi_validate json_array object (optionsSchema m) = Inr validated"
  note jv = joi_validate_Inr [OF v]
  from jv(1) show t: "get validated ''track'' =
        (if get object ''track'' = JUndefined then JArr (map JStr (map fst (attributes m)))
         else JArr (joi_single (joi_convert_array json_array (get object ''track''))))"
    by (auto simp: joi_value_array)
  then show "get validated ''track'' = get object ''track''" if "isArray (get object ''track'')"
    using that by (cases "get object ''track''") (auto simp: isArray_def joi_single_def joi_convert_array_def)
  from jv(1) show "get validated ''track'' = JArr (map JStr (track validated))"
    by (auto simp: joi_value_array track_def strings_of_strings strings_of_map)
  from jv(2) show "get validated ''idAttr'' =
        (if get object ''idAttr'' = JUndefined then JStr ''id'' else get object ''idAttr'')"
    by (auto simp: joi_value_string)
  from jv(3) show "get validated ''modelName'' =
        (if get object ''modelName'' = JUndefined then JStr (name m @ ''History'')
         else get object ''modelName'')"
    by (auto simp: joi_value_string)
  from jv(4) show "get validated ''tableName'' =
        (if get object ''tableName'' = JUndefined then JStr (tableName m @ ''_history'')
         else get object ''tableName'')"
    by (auto simp: joi_value_string)
next
  assume a: "get object ''track'' = JArr a \<and> x \<in> set a \<and> (\<forall>s. x \<noteq> JStr s)"
  then have "joi_items ''track'' a = Inl (ValidationError ''track'')"
    by (intro joi_items_fails [of x]) auto
  then show "joi_validate json_array object (optionsSchema m) = Inl (ValidationError ''track'')"
    using a
    by (simp add: joi_validate_def joi_keys_optionsSchema joi_value_def joi_single_def
        joi_convert_array_def)
next
  assume a: "fst ` set object \<subseteq> {''track'', ''idAttr'', ''modelName'', ''tableName''} \<and>
    (get object ''track'' = JUndefined \<or> (\<exists>ss. get object ''track'' = JArr (map JStr ss) \<and> [] \<notin> set ss)) \<and>
    (get object ''idAttr'' = JUndefined \<or> (\<exists>s. get object ''idAttr'' = JStr s \<and> s \<noteq> [])) \<and>
    (get object ''modelName'' = JUndefined \<or> (\<exists>s. get object ''modelName'' = JStr s \<and> s \<noteq> [])) \<and>
    (get object ''tableName'' = JUndefined \<or> (\<exists>s. get object ''tableName'' = JStr s \<and> s \<noteq> []))"
  have k: "filter (\<lambda>k. k \<notin> set (map fst (optionsSchema m))) (map fst object) = []"
    using a by (auto simp: filter_empty_conv optionsSchema_def)
  have t: "\<exists>t. joi_value json_array ''track'' (Joi_array_of_string_single (map fst (attributes m)))
           (get object ''track'') = Inr t"
    using a by (auto simp: joi_value_array joi_single_def joi_convert_array_def)
  have i: "\<exists>i. joi_value json_array ''idAttr'' (Joi_string ''id'') (get object ''idAttr'') = Inr i"
    using a by (auto simp: joi_value_string)
  have mn: "\<exists>i. joi_value json_array ''modelName'' (Joi_string (name m @ ''History''))
           (get object ''modelName'') = Inr i"
    using a by (auto simp: joi_value_string)
  have tn: "\<exists>i. joi_value json_array ''tableName'' (Joi_string (tableName m @ ''_history''))
           (get object ''tableName'') = Inr i"
    using a by (auto simp: joi_value_string)
  from t i mn tn show "\<exists>validated. joi_validate json_array object (optionsSchema m) = Inr validated"
    unfolding joi_validate_def k joi_keys_optionsSchema by auto
qed

theorem options_resolution_witness:
  "joi_validate (\<lambda>s. None) [(''track'', JArr [JStr ''total''])]
     (optionsSchema \<lparr>name = ''Order'', tableName = ''orders'',
        attributes = [(''id'', [(''type'', INTEGER)]), (''total'', [(''type'', INTEGER)])]\<rparr>)
     = Inr [(''track'', JArr [JStr ''total'']), (''idAttr'', JStr ''id''),
            (''modelName'', JStr ''OrderHistory''), (''tableName'', JStr ''orders_history'')] \<and>
   isArray (get [(''track'', JArr [JStr ''total''])] ''track'') \<and>
   get [(''track'', JArr [JStr ''total'']), (''idAttr'', JStr ''id''),
        (''modelName'', JStr ''OrderHistory''), (''tableName'', JStr ''orders_history'')] ''track''
     = get [(''track'', JArr [JStr ''total''])] ''track'' \<and>
   get [(''track'', JArr [JStr ''a'', JNum 5])] ''track'' = JArr [JStr ''a'', JNum 5] \<and>
   JNum 5 \<in> set [JStr ''a'', JNum 5] \<and>
   (\<forall>s. JNum 5 \<noteq> JStr s) \<and>
   joi_validate (\<lambda>s. None) [(''track'', JArr [JStr ''a'', JNum 5])]
     (optionsSchema \<lparr>name = ''Order'', tableName = ''orders'',
        attributes = [(''id'', [(''type'', INTEGER)]), (''total'', [(''type'', INTEGER)])]\<rparr>)
     = Inl (ValidationError ''track'') \<and>
   joi_validate (\<lambda>s. None) []
     (optionsSchema \<lparr>name = ''Order'', tableName = ''orders'',
        attributes = [(''id'', [(''type'', INTEGER)]), (''total'', [(''type'', INTEGER)])]\<rparr>)
     = Inr [(''track'', JArr [JStr ''id'', JStr ''total'']), (''idAttr'', JStr ''id''),
            (''modelName'', JStr ''OrderHistory''), (''tableName'', JStr ''orders_history'')]"
  using
    options_resolution
      [of "\<lambda>s. None" "[(''track'', JArr [JStr ''total''])]"
          "\<lparr>name = ''Order'', tableName = ''orders'',
            attributes = [(''id'', [(''type'', INTEGER)]), (''total'', [(''type'', INTEGER)])]\<rparr>"
          "[(''track'', JArr [JStr ''total'']), (''idAttr'', JStr ''id''),
            (''modelName'', JStr ''OrderHistory''), (''tableName'', JStr ''orders_history'')]"
          "[JStr ''total'']" "JStr ''total''"]
    options_resolution
      [of "\<lambda>s. None" "[(''track'', JArr [JStr ''a'', JNum 5])]"
          "\<lparr>name = ''Order'', tableName = ''orders'',
            attributes = [(''id'', [(''type'', INTEGER)]), (''total'', [(''type'', INTEGER)])]\<rparr>"
          "[]" "[JStr ''a'', JNum 5]" "JNum 5"]
    options_resolution
      [of "\<lambda>s. None" "[]"
          "\<lparr>name = ''Order'', tableName = ''orders'',
            attributes = [(''id'', [(''type'', INTEGER)]), (''total'', [(''type'', INTEGER)])]\<rparr>"
          "[(''track'', JArr [JStr ''id'', JStr ''total'']), (''idAttr'', JStr ''id''),
            (''modelName'', JStr ''OrderHistory''), (''tableName'', JStr ''orders_history'')]"
          "[]" "JNull"]
  by (simp add: joi_validate_def optionsSchema_def joi_value_def joi_string_def joi_single_def
      joi_convert_array_def isArray_def get_Nil_plain Object_prototype_keys)

section \<open>Properties of restore\<close>

lemma distinct_pickByArray:
  "distinct (map fst r) \<Longrightarrow> distinct (map fst (pickByArray ob ks r))"
  by (induction ks arbitrary: r) (simp_all add: assign_def distinct_update)

lemma get_fold_update:
  "distinct (map fst values) \<Longrightarrow>
   get (fold (\<lambda>(k, v) r. AList.update k v r) values row) k =
     (if k \<in> fst ` set values then get values k else get row k)"
proof (induction "values" arbitrary: row)
  case Nil
  then show ?case by simp
next
  case (Cons p "values")
  obtain key v where p: "p = (key, v)" by (cases p)
  from Cons.prems p have d: "distinct (map fst values)" and nk: "key \<notin> fst ` set values"
    by auto
  show ?case
  proof (cases "k = ''__proto__''")
    case True
    then show ?thesis by (simp add: get_proto)
  next
    case False
    with nk show ?thesis by (auto simp: p Cons.IH [OF d] get_update)
  qed
qed

lemma get_set_values_pick:
  "get (set_values row (pick this ks)) k = (if k \<in> set ks \<and> has this k then get this k else get row k)"
proof (cases "k = ''__proto__''")
  case True
  then show ?thesis by (simp add: get_proto)
next
  case False
  have d: "distinct (map fst (pick this ks))"
    by (simp add: pick_def distinct_pickByArray)
  have k: "k \<in> fst ` set (pick this ks) \<longleftrightarrow> k \<in> set ks \<and> has this k"
    using False by (simp add: pick_def keys_pickByArray)
  have "get (set_values row (pick this ks)) k =
      (if k \<in> set ks \<and> has this k then get (pick this ks) k else get row k)"
    unfolding set_values_def get_fold_update [OF d] k ..
  then show ?thesis
    by (simp add: get_pick)
qed

lemma save_row_found:
  "find (is_source pk this) table = Some source \<Longrightarrow>
   \<exists>before after. table = before @ source # after \<and>
     (\<forall>r \<in> set before. \<not> is_source pk this r) \<and>
     save_row pk this row' table = before @ row' # after"
proof (induction table)
  case Nil
  then show ?case by simp
next
  case (Cons r table)
  show ?case
  proof (cases "is_source pk this r")
    case True
    with Cons.prems have "r = source" by simp
    with True show ?thesis by (intro exI [of _ "[]"] exI [of _ table]) auto
  next
    case False
    with Cons.prems have "find (is_source pk this) table = Some source" by simp
    from Cons.IH [OF this] obtain before after where
      "table = before @ source # after" "\<forall>r \<in> set before. \<not> is_source pk this r"
      "save_row pk this row' table = before @ row' # after" by blast
    with False show ?thesis by (intro exI [of _ "r # before"] exI [of _ after]) auto
  qed
qed

text \<open>
  Claim C8, as stated: where the source row no longer exists, restore fails with a
  not-found error that the persistence layer raised. Over a source table without the
  row, the lookup resolves to \<^verbatim>\<open>null\<close> and restore is rejected with the TypeError of
  \<^verbatim>\<open>source.update\<close> on \<^verbatim>\<open>null\<close>, which is not an error of the persistence layer.
\<close>

theorem restore_missing_source_counterexample:
  "restore [(''track'', JArr [JStr ''total''])] ''id'' (\<lambda>row. True)
     [(''_id'', JNum 1), (''_sourceId'', JNum 7), (''_revision'', JNum 1), (''total'', JNum 10)]
     [[(''id'', JNum 8), (''total'', JNum 3)]]
   = (Inl (TypeError ''Cannot read property update of null''), [[(''id'', JNum 8), (''total'', JNum 3)]]) \<and>
   fst (restore [(''track'', JArr [JStr ''total''])] ''id'' (\<lambda>row. True)
     [(''_id'', JNum 1), (''_sourceId'', JNum 7), (''_revision'', JNum 1), (''total'', JNum 10)]
     [[(''id'', JNum 8), (''total'', JNum 3)]]) \<noteq> Inl PersistenceError"
  by (simp add: restore_def getSource_def is_source_def)

text \<open>
  Claim C8, amended. Calling restore on a history row whose source row exists, the
  database accepting the save, sets on that source row the value of every tracked field
  the history row has, leaves its other fields as they were, and saves it in its place
  in the source table, the other rows unchanged. Where the source row no longer exists
  restore fails with the TypeError raised by calling \<^verbatim>\<open>update\<close> on the \<^verbatim>\<open>null\<close> that the
  lookup resolved to, and where the database rejects the save it fails with the
  database's error; in both cases the source table is left unchanged.
\<close>

theorem restore_source:
  "(getSource pk this table = Some source \<and> accepts (set_values source (pick this (track options))) \<longrightarrow>
      (\<exists>before after.
         table = before @ source # after \<and> (\<forall>r \<in> set before. \<not> is_source pk this r) \<and>
         restore options pk accepts this table =
           (Inr (set_values source (pick this (track options))),
            before @ set_values source (pick this (track options)) # after)) \<and>
      (\<forall>k. get (set_values source (pick this (track options))) k =
            (if k \<in> set (track options) \<and> has this k then get this k else get source k))) \<and>
   (getSource pk this table = Some source \<and> \<not> accepts (set_values source (pick this (track options))) \<longrightarrow>
      restore options pk accepts this table = (Inl PersistenceError, table)) \<and>
   ((\<forall>row \<in> set table. \<not> is_source pk this row) \<longrightarrow>
      restore options pk accepts this table =
        (Inl (TypeError ''Cannot read property update of null''), table))"
proof (intro conjI impI allI)
  assume a: "getSource pk this table = Some source \<and> accepts (set_values source (pick this (track options)))"
  then have "find (is_source pk this) table = Some source"
    by (simp add: getSource_def)
  from save_row_found [OF this, of "set_values source (pick this (track options))"]
  obtain before after where
    "table = before @ source # after" "\<forall>r \<in> set before. \<not> is_source pk this r"
    "save_row pk this (set_values source (pick this (track options))) table =
       before @ set_values source (pick this (track options)) # after"
    by blast
  moreover from a have "restore options pk accepts this table =
      (Inr (set_values source (pick this (track options))),
       save_row pk this (set_values source (pick this (track options))) table)"
    by (simp add: restore_def Let_def)
  ultimately show "\<exists>before after.
         table = before @ source # after \<and> (\<forall>r \<in> set before. \<not> is_source pk this r) \<and>
         restore options pk accepts this table =
           (Inr (set_values source (pick this (track options))),
            before @ set_values source (pick this (track options)) # after)"
    by (intro exI [of _ before] exI [of _ after]) simp
next
  fix k
  show "get (set_values source (pick this (track options))) k =
            (if k \<in> set (track options) \<and> has this k then get this k else get source k)"
    by (rule get_set_values_pick)
next
  assume "getSource pk this table = Some source \<and> \<not> accepts (set_values source (pick this (track options)))"
  then show "restore options pk accepts this table = (Inl PersistenceError, table)"
    by (simp add: restore_def Let_def)
next
  assume "\<forall>row \<in> set table. \<not> is_source pk this row"
  then have "getSource pk this table = None"
    by (simp add: getSource_def find_None_iff)
  then show "restore options pk accepts this table =
        (Inl (TypeError ''Cannot read property update of null''), table)"
    by (simp add: restore_def)
qed

theorem restore_source_witness:
  "getSource ''id''
     [(''_id'', JNum 1), (''_sourceId'', JNum 7), (''_revision'', JNum 1), (''total'', JNum 10)]
     [[(''id'', JNum 8), (''total'', JNum 3)], [(''id'', JNum 7), (''total'', JNum 12), (''note'', JStr ''n'')]]
     = Some [(''id'', JNum 7), (''total'', JNum 12), (''note'', JStr ''n'')] \<and>
   restore [(''track'', JArr [JStr ''total''])] ''id'' (\<lambda>row. True)
     [(''_id'', JNum 1), (''_sourceId'', JNum 7), (''_revision'', JNum 1), (''total'', JNum 10)]
     [[(''id'', JNum 8), (''total'', JNum 3)], [(''id'', JNum 7), (''total'', JNum 12), (''note'', JStr ''n'')]]
     = (Inr [(''id'', JNum 7), (''total'', JNum 10), (''note'', JStr ''n'')],
        [[(''id'', JNum 8), (''total'', JNum 3)], [(''id'', JNum 7), (''total'', JNum 10), (''note'', JStr ''n'')]]) \<and>
   restore [(''track'', JArr [JStr ''total''])] ''id'' (\<lambda>row. False)
     [(''_id'', JNum 1), (''_sourceId'', JNum 7), (''_revision'', JNum 1), (''total'', JNum 10)]
     [[(''id'', JNum 8), (''total'', JNum 3)], [(''id'', JNum 7), (''total'', JNum 12), (''note'', JStr ''n'')]]
     = (Inl PersistenceError,
        [[(''id'', JNum 8), (''total'', JNum 3)], [(''id'', JNum 7), (''total'', JNum 12), (''note'', JStr ''n'')]]) \<and>
   restore [(''track'', JArr [JStr ''total''])] ''id'' (\<lambda>row. True)
     [(''_id'', JNum 1), (''_sourceId'', JNum 7), (''_revision'', JNum 1), (''total'', JNum 10)]
     [[(''id'', JNum 8), (''total'', JNum 3)]]
     = (Inl (TypeError ''Cannot read property update of null''), [[(''id'', JNum 8), (''total'', JNum 3)]])"
  using
    restore_source
      [of "''id''" "[(''_id'', JNum 1), (''_sourceId'', JNum 7), (''_revision'', JNum 1), (''total'', JNum 10)]"
          "[[(''id'', JNum 8), (''total'', JNum 3)], [(''id'', JNum 7), (''total'', JNum 12), (''note'', JStr ''n'')]]"
          "[(''id'', JNum 7), (''total'', JNum 12), (''note'', JStr ''n'')]"
          "\<lambda>row. True" "[(''track'', JArr [JStr ''total''])]"]
    restore_source
      [of "''id''" "[(''_id'', JNum 1), (''_sourceId'', JNum 7), (''_revision'', JNum 1), (''total'', JNum 10)]"
          "[[(''id'', JNum 8), (''total'', JNum 3)], [(''id'', JNum 7), (''total'', JNum 12), (''note'', JStr ''n'')]]"
          "[(''id'', JNum 7), (''total'', JNum 12), (''note'', JStr ''n'')]"
          "\<lambda>row. False" "[(''track'', JArr [JStr ''total''])]"]
    restore_source
      [of "''id''" "[(''_id'', JNum 1), (''_sourceId'', JNum 7), (''_revision'', JNum 1), (''total'', JNum 10)]"
          "[[(''id'', JNum 8), (''total'', JNum 3)]]"
          "[]" "\<lambda>row. True" "[(''track'', JArr [JStr ''total''])]"]
  by (simp add: restore_def getSource_def is_source_def set_values_def pick_def assign_def track_def
      strings_of_def arrayLike_def Let_def)

section \<open>The two array snippets agree\<close>

lemma arrayMap_this:
  "arrayMap (\<lambda>this arguments. f JUndefined arguments) array index vs = arrayMap f array index vs"
  by (induction vs arbitrary: index) (auto split: sum.splits)

lemma arrayMap_bound:
  "arrayMap (\<lambda>this arguments. f c (take 3 arguments)) array index vs =
   arrayMap (\<lambda>this arguments. f c arguments) array index vs"
  by (induction vs arbitrary: index) (auto split: sum.splits)

lemma map_lodash_bind: "map_lodash collection (bind f c) JUndefined = map_lodash collection f c"
  by (cases collection)
    (auto simp: map_lodash_def bind_def bindCallback_def arrayMap_this arrayMap_bound)

lemma show_nat_digit: "n < 10 \<Longrightarrow> show_nat n = [digit_char n]"
  by (subst show_nat.simps) simp

text \<open>
  Claim C10. With lodash 3's \<^verbatim>\<open>_.map\<close>, which takes a \<^verbatim>\<open>thisArg\<close>, the snippet that
  binds the context to the iteratee and the variant that passes it as third argument
  give the same result for every collection, iteratee and context; on the input
  \<^verbatim>\<open>[{a: 3}, {a: 4}]\<close> with the context \<^verbatim>\<open>{b: 5}\<close> both give the list 8, 9 and print
  the line \<^verbatim>\<open>8, 9\<close>.
\<close>

theorem snippets_equivalent:
  "map_lodash collection (bind f c) JUndefined = map_lodash collection f c \<and>
   transformed_bind = Inr [JNum 8, JNum 9] \<and>
   transformed_thisArg = Inr [JNum 8, JNum 9] \<and>
   console_log_join transformed_bind = Inr ''8, 9'' \<and>
   console_log_join transformed_thisArg = Inr ''8, 9''"
proof -
  have t: "transformed_thisArg = Inr [JNum 8, JNum 9]"
    by (simp add: transformed_thisArg_def map_lodash_def bindCallback_def arr_def ctx_def
        iteratee_def member_def this_sloppy_def js_add_def toString_def toNumber_def isString_def)
  have b: "transformed_bind = transformed_thisArg"
    by (simp add: transformed_bind_def transformed_thisArg_def map_lodash_bind)
  have j: "console_log_join (Inr [JNum 8, JNum 9]) = Inr ''8, 9''"
    by (simp add: console_log_join_def toString_def show_int_def show_nat_digit digit_char_def)
  show ?thesis
    using t b j by (simp add: map_lodash_bind)
qed

text \<open>
  The equivalence rests on \<^verbatim>\<open>_.map\<close> honouring its third argument. Where it is ignored,
  as from lodash 4 on, the bound iteratee still gives 8, 9, and the iteratee passed with
  a \<^verbatim>\<open>thisArg\<close> reads \<^verbatim>\<open>b\<close> from the global object and gives NaN, NaN.
\<close>

lemma thisArg_ignored:
  "map_lodash4 arr (bind iteratee ctx) JUndefined = Inr [JNum 8, JNum 9] \<and>
   map_lodash4 arr iteratee ctx = Inr [JNaN, JNaN] \<and>
   console_log_join (map_lodash4 arr iteratee ctx) = Inr ''NaN, NaN''"
  by (simp add: map_lodash4_def bind_def arr_def ctx_def iteratee_def member_def this_sloppy_def
      js_add_def toString_def toNumber_def isString_def console_log_join_def
      get_Nil_plain Object_prototype_keys)

end
